theory Spec2Isabelle
  imports Main "HOL-Library.Word" "HOL-Library.Signed_Division"
begin

section \<open>goalsa: Go bindings to ALSA\<close>

text \<open>
  The repository holds two variants of the binding. Definitions without a suffix embed
  \<^verbatim>\<open>src/alsa.go\<close> (mixer element "PCM", byte-slice transfers, \<^verbatim>\<open>Close\<close> returning
  an error). Definitions with the suffix \<open>_p0\<close> embed \<^verbatim>\<open>src/unnamed/part_000\<close>
  (mixer element "Master", reflective transfers with \<^verbatim>\<open>ErrSize\<close>, \<^verbatim>\<open>Close\<close> without
  a result). Where both files have the same text, one definition serves both.

  The ALSA library is outside the repository. It is a record of responses
  (\<open>backend\<close>), one field per C function the Go code calls; every Go function below
  calls each C function at most once, so a response that depends only on the arguments
  of the call covers every behaviour of the library during one Go call, and theorems
  about two Go calls in a row take one backend for each. Every Go function returns,
  beside its Go results, the list of C calls it made, in order, so that "re-arms the
  stream" or "no transfer call is made" are statements about that list. The calls of
  \<^verbatim>\<open>C.CString\<close> and \<^verbatim>\<open>C.free\<close> manage the C copies of Go strings and are left out of it.
\<close>

subsection \<open>Integers\<close>

text \<open>
  The sizes are those of a 64-bit Linux target (LP64): Go's \<^verbatim>\<open>int\<close> and C's
  \<^verbatim>\<open>long\<close>, \<^verbatim>\<open>snd_pcm_uframes_t\<close> (unsigned long) and \<^verbatim>\<open>snd_pcm_sframes_t\<close> (long) have 64
  bits, C's \<^verbatim>\<open>int\<close> and \<^verbatim>\<open>unsigned int\<close> 32. Go's \<^verbatim>\<open>+\<close>, \<^verbatim>\<open>-\<close> and \<^verbatim>\<open>*\<close> wrap around,
  as the word operations do; conversions between integer types of one size keep the
  bits, narrowing conversions truncate (\<open>ucast\<close>).
\<close>

type_synonym go_int = "64 word"
type_synonym c_int = "32 word"
type_synonym c_uint = "32 word"
type_synonym c_long = "64 word"
type_synonym snd_pcm_uframes_t = "64 word"
type_synonym snd_pcm_sframes_t = "64 word"

text \<open>
  Go's \<^verbatim>\<open>/\<close> on signed integers truncates towards zero, and the most negative value
  divided by \<open>-1\<close> wraps to itself. A zero divisor panics: every use below whose divisor is
  not a non-zero constant tests it first.
\<close>

definition quo :: "'a::len word \<Rightarrow> 'a word \<Rightarrow> 'a word" where
  "quo a b = word_of_int (sint a sdiv sint b)"

text \<open>\<^verbatim>\<open>EPIPE\<close> comes from the C header \<^verbatim>\<open>errno.h\<close>; on Linux it is 32.\<close>

definition EPIPE :: "snd_pcm_sframes_t" where
  "EPIPE = 32"

subsection \<open>Errors and panics\<close>

text \<open>
  \<open>ErrOverrun\<close>, \<open>ErrUnderrun\<close> and \<open>ErrSize\<close> are the package variables made with
  \<^verbatim>\<open>errors.New\<close> once; Go compares error values by identity, so each is an error of its
  own. \<open>ErrorsNew\<close> is an \<^verbatim>\<open>errors.New\<close> at the place of the return, \<open>Errorf\<close> a
  \<^verbatim>\<open>fmt.Errorf\<close> with the formatted message.
\<close>

datatype error =
    ErrOverrun
  | ErrUnderrun
  | ErrSize
  | ErrorsNew string
  | Errorf string

datatype panic =
    DivideByZero
  | IndexOutOfRange
  | NilDereference
  | UnsupportedFormat
  | SliceOfUnaddressableArray

datatype 'a outcome = Return 'a | Panic panic

subsection \<open>Sample formats\<close>

text \<open>
  \<^verbatim>\<open>SampleFormat\<close> (\<^verbatim>\<open>Format\<close> in part_000) is the C enumeration
  \<^verbatim>\<open>snd_pcm_format_t\<close>. The eighteen constants the Go files name are constructors;
  \<open>SampleFormatOther\<close> stands for every other value of the enumeration.
\<close>

datatype SampleFormat =
    SampleFormatS8 | SampleFormatU8
  | SampleFormatS16LE | SampleFormatS16BE | SampleFormatU16LE | SampleFormatU16BE
  | SampleFormatS24LE | SampleFormatS24BE | SampleFormatU24LE | SampleFormatU24BE
  | SampleFormatS32LE | SampleFormatS32BE | SampleFormatU32LE | SampleFormatU32BE
  | SampleFormatFloatLE | SampleFormatFloatBE
  | SampleFormatFloat64LE | SampleFormatFloat64BE
  | SampleFormatOther int

subsection \<open>The backend and its calls\<close>

type_synonym handle = nat

datatype call =
    Call_snd_pcm_open string bool
  | Call_snd_pcm_hw_params_malloc
  | Call_snd_pcm_hw_params_free
  | Call_snd_pcm_hw_params_any
  | Call_snd_pcm_hw_params_set_access
  | Call_snd_pcm_hw_params_set_format SampleFormat
  | Call_snd_pcm_hw_params_set_channels c_uint
  | Call_snd_pcm_hw_params_set_rate c_uint
  | Call_snd_pcm_hw_params_get_buffer_size_max
  | Call_snd_pcm_hw_params_set_buffer_size_near snd_pcm_uframes_t
  | Call_snd_pcm_hw_params_set_period_size_near snd_pcm_uframes_t
  | Call_snd_pcm_hw_params_get_periods
  | Call_snd_pcm_hw_params
  | Call_snd_pcm_drain "handle option"
  | Call_snd_pcm_close "handle option"
  | Call_snd_pcm_readi "handle option" snd_pcm_uframes_t
  | Call_snd_pcm_writei "handle option" snd_pcm_uframes_t
  | Call_snd_pcm_prepare "handle option"
  | Call_snd_pcm_drop "handle option"
  | Call_snd_mixer_open
  | Call_snd_mixer_close
  | Call_snd_mixer_attach string
  | Call_snd_mixer_selem_register
  | Call_snd_mixer_load
  | Call_snd_mixer_selem_id_malloc
  | Call_snd_mixer_selem_id_free
  | Call_snd_mixer_selem_id_set_index
  | Call_snd_mixer_selem_id_set_name string
  | Call_snd_mixer_find_selem
  | Call_snd_mixer_selem_get_playback_volume_range
  | Call_snd_mixer_selem_set_playback_volume_all c_long
  | Call_snd_mixer_selem_get_playback_volume

text \<open>
  A field is the status the C function returns, with the values it writes through its
  pointer arguments: \<open>snd_pcm_open\<close> gives the status and what it leaves in \<^verbatim>\<open>d.h\<close>,
  the \<open>_near\<close> setters give the status and the adjusted value, the getters the status
  and the value read. A handle is \<open>None\<close> for the null pointer.
\<close>

record backend =
  snd_strerror :: "c_int \<Rightarrow> string"
  snd_pcm_open :: "string \<Rightarrow> bool \<Rightarrow> c_int \<times> handle option"
  snd_pcm_hw_params_malloc :: c_int
  snd_pcm_hw_params_any :: c_int
  snd_pcm_hw_params_set_access :: c_int
  snd_pcm_hw_params_set_format :: "SampleFormat \<Rightarrow> c_int"
  snd_pcm_hw_params_set_channels :: "c_uint \<Rightarrow> c_int"
  snd_pcm_hw_params_set_rate :: "c_uint \<Rightarrow> c_int"
  snd_pcm_hw_params_get_buffer_size_max :: "c_int \<times> snd_pcm_uframes_t"
  snd_pcm_hw_params_set_buffer_size_near :: "snd_pcm_uframes_t \<Rightarrow> c_int \<times> snd_pcm_uframes_t"
  snd_pcm_hw_params_set_period_size_near :: "snd_pcm_uframes_t \<Rightarrow> c_int \<times> snd_pcm_uframes_t"
  snd_pcm_hw_params_get_periods :: "c_int \<times> c_uint"
  snd_pcm_hw_params :: c_int
  snd_pcm_close :: "handle option \<Rightarrow> c_int"
  snd_pcm_readi :: "handle option \<Rightarrow> snd_pcm_uframes_t \<Rightarrow> snd_pcm_sframes_t"
  snd_pcm_writei :: "handle option \<Rightarrow> snd_pcm_uframes_t \<Rightarrow> snd_pcm_sframes_t"
  snd_pcm_drop :: "handle option \<Rightarrow> c_int"
  snd_mixer_open :: c_int
  snd_mixer_selem_register :: c_int
  snd_mixer_load :: c_int
  snd_mixer_selem_id_malloc :: c_int
  snd_mixer_selem_get_playback_volume_range :: "c_int \<times> c_long \<times> c_long"
  snd_mixer_selem_set_playback_volume_all :: "c_long \<Rightarrow> c_int"
  snd_mixer_selem_get_playback_volume :: "c_int \<times> c_long"

text \<open>\<^verbatim>\<open>createError\<close>: \<^verbatim>\<open>fmt.Errorf("%s: %s", errorMsg, snd_strerror(errorCode))\<close>.\<close>

definition createError :: "backend \<Rightarrow> string \<Rightarrow> c_int \<Rightarrow> error" where
  "createError be errorMsg errorCode = Errorf (errorMsg @ '': '' @ snd_strerror be errorCode)"

subsection \<open>Master volume\<close>

text \<open>
  \<^verbatim>\<open>const card = "default"\<close> in both files; \<^verbatim>\<open>const mixer\<close> is "PCM" in alsa.go and
  "Master" in part_000.
\<close>

definition card :: string where
  "card = ''default''"

definition mixer :: string where
  "mixer = ''PCM''"

definition mixer_p0 :: string where
  "mixer_p0 = ''Master''"

text \<open>
  \<^verbatim>\<open>SetMasterVolume\<close> of alsa.go. The receiver is not used. Each branch lists the calls
  made up to its return and then the deferred ones, last deferred first
  (\<^verbatim>\<open>snd_mixer_selem_id_free\<close>, then \<^verbatim>\<open>snd_mixer_close\<close>). The element pointer that
  \<^verbatim>\<open>snd_mixer_find_selem\<close> returns is handed on unchanged and not represented. The Go
  variables \<^verbatim>\<open>min\<close> and \<^verbatim>\<open>max\<close> are \<open>vmin\<close> and \<open>vmax\<close> here.
\<close>

definition SetMasterVolume :: "backend \<Rightarrow> go_int \<Rightarrow> error option \<times> call list" where
  "SetMasterVolume be volume =
    (if snd_mixer_open be <s 0 then
       (Some (createError be ''could not open mixer'' (snd_mixer_open be)),
        [Call_snd_mixer_open])
     else if snd_mixer_selem_register be <s 0 then
       (Some (createError be ''could not register simple element class'' (snd_mixer_selem_register be)),
        [Call_snd_mixer_open, Call_snd_mixer_attach card, Call_snd_mixer_selem_register,
         Call_snd_mixer_close])
     else if snd_mixer_load be <s 0 then
       (Some (createError be ''could not load mixer handle'' (snd_mixer_load be)),
        [Call_snd_mixer_open, Call_snd_mixer_attach card, Call_snd_mixer_selem_register,
         Call_snd_mixer_load, Call_snd_mixer_close])
     else if snd_mixer_selem_id_malloc be <s 0 then
       (Some (createError be ''could not allocate simple element pointer'' (snd_mixer_selem_id_malloc be)),
        [Call_snd_mixer_open, Call_snd_mixer_attach card, Call_snd_mixer_selem_register,
         Call_snd_mixer_load, Call_snd_mixer_selem_id_malloc, Call_snd_mixer_close])
     else
       (case snd_mixer_selem_get_playback_volume_range be of (ret, vmin, vmax) \<Rightarrow>
         if ret <s 0 then
           (Some (createError be ''could not get simple element volume range'' ret),
            [Call_snd_mixer_open, Call_snd_mixer_attach card, Call_snd_mixer_selem_register,
             Call_snd_mixer_load, Call_snd_mixer_selem_id_malloc,
             Call_snd_mixer_selem_id_set_index, Call_snd_mixer_selem_id_set_name mixer,
             Call_snd_mixer_find_selem, Call_snd_mixer_selem_get_playback_volume_range,
             Call_snd_mixer_selem_id_free, Call_snd_mixer_close])
         else
           (let vol = volume;
                total = vmax - vmin;
                vol = quo (vol * total) 100 + vmin;
                ret = snd_mixer_selem_set_playback_volume_all be vol
            in (if ret <s 0 then Some (createError be ''could not set playback volume'' ret)
                else None,
                [Call_snd_mixer_open, Call_snd_mixer_attach card, Call_snd_mixer_selem_register,
                 Call_snd_mixer_load, Call_snd_mixer_selem_id_malloc,
                 Call_snd_mixer_selem_id_set_index, Call_snd_mixer_selem_id_set_name mixer,
                 Call_snd_mixer_find_selem, Call_snd_mixer_selem_get_playback_volume_range,
                 Call_snd_mixer_selem_set_playback_volume_all vol,
                 Call_snd_mixer_selem_id_free, Call_snd_mixer_close]))))"

text \<open>
  \<^verbatim>\<open>SetMasterVolume\<close> of part_000: \<^verbatim>\<open>snd_mixer_selem_register\<close> is commented out, and the
  value set is \<^verbatim>\<open>vol*max/100\<close>; \<^verbatim>\<open>min\<close> is read and not used.
\<close>

definition SetMasterVolume_p0 :: "backend \<Rightarrow> go_int \<Rightarrow> error option \<times> call list" where
  "SetMasterVolume_p0 be volume =
    (if snd_mixer_open be <s 0 then
       (Some (createError be ''could not open mixer'' (snd_mixer_open be)),
        [Call_snd_mixer_open])
     else if snd_mixer_load be <s 0 then
       (Some (createError be ''could not load mixer handle'' (snd_mixer_load be)),
        [Call_snd_mixer_open, Call_snd_mixer_attach card, Call_snd_mixer_load,
         Call_snd_mixer_close])
     else if snd_mixer_selem_id_malloc be <s 0 then
       (Some (createError be ''could not allocate simple element pointer'' (snd_mixer_selem_id_malloc be)),
        [Call_snd_mixer_open, Call_snd_mixer_attach card, Call_snd_mixer_load,
         Call_snd_mixer_selem_id_malloc, Call_snd_mixer_close])
     else
       (case snd_mixer_selem_get_playback_volume_range be of (ret, vmin, vmax) \<Rightarrow>
         if ret <s 0 then
           (Some (createError be ''could not get simple element volume range'' ret),
            [Call_snd_mixer_open, Call_snd_mixer_attach card, Call_snd_mixer_load,
             Call_snd_mixer_selem_id_malloc,
             Call_snd_mixer_selem_id_set_index, Call_snd_mixer_selem_id_set_name mixer_p0,
             Call_snd_mixer_find_selem, Call_snd_mixer_selem_get_playback_volume_range,
             Call_snd_mixer_selem_id_free, Call_snd_mixer_close])
         else
           (let vol = volume;
                ret = snd_mixer_selem_set_playback_volume_all be (quo (vol * vmax) 100)
            in (if ret <s 0 then Some (createError be ''could not set playback volume'' ret)
                else None,
                [Call_snd_mixer_open, Call_snd_mixer_attach card, Call_snd_mixer_load,
                 Call_snd_mixer_selem_id_malloc,
                 Call_snd_mixer_selem_id_set_index, Call_snd_mixer_selem_id_set_name mixer_p0,
                 Call_snd_mixer_find_selem, Call_snd_mixer_selem_get_playback_volume_range,
                 Call_snd_mixer_selem_set_playback_volume_all (quo (vol * vmax) 100),
                 Call_snd_mixer_selem_id_free, Call_snd_mixer_close]))))"

text \<open>
  \<^verbatim>\<open>GetMasterVolume\<close> of alsa.go. \<^verbatim>\<open>outvol -= min; max -= min; outvol = 100 * outvol / max\<close>:
  the division panics when \<^verbatim>\<open>max\<close> is then zero, and the deferred calls still run.
\<close>

definition GetMasterVolume :: "backend \<Rightarrow> (go_int \<times> error option) outcome \<times> call list" where
  "GetMasterVolume be =
    (if snd_mixer_open be <s 0 then
       (Return (0, Some (createError be ''could not open mixer'' (snd_mixer_open be))),
        [Call_snd_mixer_open])
     else if snd_mixer_selem_register be <s 0 then
       (Return (0, Some (createError be ''could not register simple element class'' (snd_mixer_selem_register be))),
        [Call_snd_mixer_open, Call_snd_mixer_attach card, Call_snd_mixer_selem_register,
         Call_snd_mixer_close])
     else if snd_mixer_load be <s 0 then
       (Return (0, Some (createError be ''could not load mixer handle'' (snd_mixer_load be))),
        [Call_snd_mixer_open, Call_snd_mixer_attach card, Call_snd_mixer_selem_register,
         Call_snd_mixer_load, Call_snd_mixer_close])
     else if snd_mixer_selem_id_malloc be <s 0 then
       (Return (0, Some (createError be ''could not allocate simple element pointer'' (snd_mixer_selem_id_malloc be))),
        [Call_snd_mixer_open, Call_snd_mixer_attach card, Call_snd_mixer_selem_register,
         Call_snd_mixer_load, Call_snd_mixer_selem_id_malloc, Call_snd_mixer_close])
     else
       (case snd_mixer_selem_get_playback_volume_range be of (ret, vmin, vmax) \<Rightarrow>
         if ret <s 0 then
           (Return (0, Some (createError be ''could not get simple element volume range'' ret)),
            [Call_snd_mixer_open, Call_snd_mixer_attach card, Call_snd_mixer_selem_register,
             Call_snd_mixer_load, Call_snd_mixer_selem_id_malloc,
             Call_snd_mixer_selem_id_set_index, Call_snd_mixer_selem_id_set_name mixer,
             Call_snd_mixer_find_selem, Call_snd_mixer_selem_get_playback_volume_range,
             Call_snd_mixer_selem_id_free, Call_snd_mixer_close])
         else
           (case snd_mixer_selem_get_playback_volume be of (ret, outvol) \<Rightarrow>
             (if ret <s 0 then
                Return (0, Some (createError be ''could not get playback volume'' ret))
              else
                (let outvol = outvol - vmin;
                     vmax = vmax - vmin
                 in if vmax = 0 then Panic DivideByZero
                    else Return (quo (100 * outvol) vmax, None)),
              [Call_snd_mixer_open, Call_snd_mixer_attach card, Call_snd_mixer_selem_register,
               Call_snd_mixer_load, Call_snd_mixer_selem_id_malloc,
               Call_snd_mixer_selem_id_set_index, Call_snd_mixer_selem_id_set_name mixer,
               Call_snd_mixer_find_selem, Call_snd_mixer_selem_get_playback_volume_range,
               Call_snd_mixer_selem_get_playback_volume,
               Call_snd_mixer_selem_id_free, Call_snd_mixer_close]))))"

text \<open>\<^verbatim>\<open>GetMasterVolume\<close> of part_000: the same without \<^verbatim>\<open>snd_mixer_selem_register\<close>.\<close>

definition GetMasterVolume_p0 :: "backend \<Rightarrow> (go_int \<times> error option) outcome \<times> call list" where
  "GetMasterVolume_p0 be =
    (if snd_mixer_open be <s 0 then
       (Return (0, Some (createError be ''could not open mixer'' (snd_mixer_open be))),
        [Call_snd_mixer_open])
     else if snd_mixer_load be <s 0 then
       (Return (0, Some (createError be ''could not load mixer handle'' (snd_mixer_load be))),
        [Call_snd_mixer_open, Call_snd_mixer_attach card, Call_snd_mixer_load,
         Call_snd_mixer_close])
     else if snd_mixer_selem_id_malloc be <s 0 then
       (Return (0, Some (createError be ''could not allocate simple element pointer'' (snd_mixer_selem_id_malloc be))),
        [Call_snd_mixer_open, Call_snd_mixer_attach card, Call_snd_mixer_load,
         Call_snd_mixer_selem_id_malloc, Call_snd_mixer_close])
     else
       (case snd_mixer_selem_get_playback_volume_range be of (ret, vmin, vmax) \<Rightarrow>
         if ret <s 0 then
           (Return (0, Some (createError be ''could not get simple element volume range'' ret)),
            [Call_snd_mixer_open, Call_snd_mixer_attach card, Call_snd_mixer_load,
             Call_snd_mixer_selem_id_malloc,
             Call_snd_mixer_selem_id_set_index, Call_snd_mixer_selem_id_set_name mixer_p0,
             Call_snd_mixer_find_selem, Call_snd_mixer_selem_get_playback_volume_range,
             Call_snd_mixer_selem_id_free, Call_snd_mixer_close])
         else
           (case snd_mixer_selem_get_playback_volume be of (ret, outvol) \<Rightarrow>
             (if ret <s 0 then
                Return (0, Some (createError be ''could not get playback volume'' ret))
              else
                (let outvol = outvol - vmin;
                     vmax = vmax - vmin
                 in if vmax = 0 then Panic DivideByZero
                    else Return (quo (100 * outvol) vmax, None)),
              [Call_snd_mixer_open, Call_snd_mixer_attach card, Call_snd_mixer_load,
               Call_snd_mixer_selem_id_malloc,
               Call_snd_mixer_selem_id_set_index, Call_snd_mixer_selem_id_set_name mixer_p0,
               Call_snd_mixer_find_selem, Call_snd_mixer_selem_get_playback_volume_range,
               Call_snd_mixer_selem_get_playback_volume,
               Call_snd_mixer_selem_id_free, Call_snd_mixer_close]))))"

subsection \<open>Devices\<close>

record BufferParams =
  BufferFrames :: go_int
  PeriodFrames :: go_int
  Periods :: go_int

record AudioParams =
  Channels :: go_int
  SamplingRate :: go_int
  SampleFormat :: SampleFormat

text \<open>
  \<^verbatim>\<open>device\<close> of alsa.go. \<open>Audio\<close> is a pointer and may be null (\<open>None\<close>); the record
  holds the parameters it points to. \<open>finalizer\<close> says whether \<^verbatim>\<open>runtime.SetFinalizer\<close> has
  \<^verbatim>\<open>(*device).Close\<close> registered for the device.
\<close>

record device =
  h :: "handle option"
  Audio :: "AudioParams option"
  BufferParams :: BufferParams
  frames :: go_int
  finalizer :: bool

text \<open>\<^verbatim>\<open>device\<close> of part_000.\<close>

record device_p0 =
  h_p0 :: "handle option"
  Channels_p0 :: go_int
  Format_p0 :: SampleFormat
  Rate_p0 :: go_int
  BufferParams_p0 :: BufferParams
  frames_p0 :: go_int
  finalizer_p0 :: bool

subsection \<open>Negotiation\<close>

text \<open>
  Lines 124 to 143 of alsa.go and 122 to 141 of part_000, the same text in both: from
  \<^verbatim>\<open>snd_pcm_hw_params_set_buffer_size_near\<close> to the commit \<^verbatim>\<open>snd_pcm_hw_params\<close>.
  \<open>rate\<close> is \<^verbatim>\<open>audio.SamplingRate\<close> (\<^verbatim>\<open>rate\<close> in part_000) and \<open>bufferSize\<close> the value of
  the variable when line 124 is reached. The result is the error returned, or the
  accepted buffer size, period size and period count.
\<close>

definition negotiateFrom ::
  "backend \<Rightarrow> go_int \<Rightarrow> BufferParams \<Rightarrow> snd_pcm_uframes_t \<Rightarrow>
   (error + snd_pcm_uframes_t \<times> snd_pcm_uframes_t \<times> c_uint) \<times> call list" where
  "negotiateFrom be rate bufferParams bufferSize =
    (case snd_pcm_hw_params_set_buffer_size_near be bufferSize of (ret, bufferSize') \<Rightarrow>
      if ret <s 0 then
        (Inl (createError be ''could not set buffer size'' ret),
         [Call_snd_pcm_hw_params_set_buffer_size_near bufferSize])
      else
        (let periodFrames =
               (if 0 <s PeriodFrames bufferParams then PeriodFrames bufferParams
                else if 0 <s Periods bufferParams then quo bufferSize' (Periods bufferParams)
                else quo rate 8)
         in case snd_pcm_hw_params_set_period_size_near be periodFrames of (ret, periodFrames') \<Rightarrow>
           if ret <s 0 then
             (Inl (createError be ''could not set period size'' ret),
              [Call_snd_pcm_hw_params_set_buffer_size_near bufferSize,
               Call_snd_pcm_hw_params_set_period_size_near periodFrames])
           else
             (case snd_pcm_hw_params_get_periods be of (ret, periods) \<Rightarrow>
               if ret <s 0 then
                 (Inl (createError be ''could not get periods'' ret),
                  [Call_snd_pcm_hw_params_set_buffer_size_near bufferSize,
                   Call_snd_pcm_hw_params_set_period_size_near periodFrames,
                   Call_snd_pcm_hw_params_get_periods])
               else if snd_pcm_hw_params be <s 0 then
                 (Inl (createError be ''could not set hw params'' (snd_pcm_hw_params be)),
                  [Call_snd_pcm_hw_params_set_buffer_size_near bufferSize,
                   Call_snd_pcm_hw_params_set_period_size_near periodFrames,
                   Call_snd_pcm_hw_params_get_periods, Call_snd_pcm_hw_params])
               else
                 (Inr (bufferSize', periodFrames', periods),
                  [Call_snd_pcm_hw_params_set_buffer_size_near bufferSize,
                   Call_snd_pcm_hw_params_set_period_size_near periodFrames,
                   Call_snd_pcm_hw_params_get_periods, Call_snd_pcm_hw_params]))))"

text \<open>
  Lines 117 to 143 of alsa.go and 115 to 141 of part_000: the buffer size asked for is the
  hint's, or the backend's maximum when the hint's is zero.
\<close>

definition negotiateBuffers ::
  "backend \<Rightarrow> go_int \<Rightarrow> BufferParams \<Rightarrow>
   (error + snd_pcm_uframes_t \<times> snd_pcm_uframes_t \<times> c_uint) \<times> call list" where
  "negotiateBuffers be rate bufferParams =
    (if BufferFrames bufferParams = 0 then
       (case snd_pcm_hw_params_get_buffer_size_max be of (ret, bufferSize) \<Rightarrow>
         if ret <s 0 then
           (Inl (createError be ''could not get buffer size'' ret),
            [Call_snd_pcm_hw_params_get_buffer_size_max])
         else
           (case negotiateFrom be rate bufferParams bufferSize of (r, t) \<Rightarrow>
             (r, Call_snd_pcm_hw_params_get_buffer_size_max # t)))
     else negotiateFrom be rate bufferParams (BufferFrames bufferParams))"

text \<open>
  \<^verbatim>\<open>initDevice\<close> of alsa.go. The result is the error returned (\<open>None\<close> for \<^verbatim>\<open>nil\<close>) or a
  panic, the device as the call leaves it, and the calls made.
  \<^verbatim>\<open>snd_pcm_hw_params_free\<close> is deferred once the allocation has succeeded. A null
  \<^verbatim>\<open>audio\<close> panics where line 108 reads \<^verbatim>\<open>audio.SampleFormat\<close>.
\<close>

definition initDevice ::
  "backend \<Rightarrow> device \<Rightarrow> string \<Rightarrow> AudioParams option \<Rightarrow> bool \<Rightarrow> BufferParams \<Rightarrow>
   error option outcome \<times> device \<times> call list" where
  "initDevice be d deviceName audio playback bufferParams =
    (case snd_pcm_open be deviceName playback of (ret, hv) \<Rightarrow>
      if ret <s 0 then
        (Return (Some (Errorf (''could not open ALSA device '' @ deviceName))),
         d\<lparr>h := hv\<rparr>,
         [Call_snd_pcm_open deviceName playback])
      else if snd_pcm_hw_params_malloc be <s 0 then
        (Return (Some (createError be ''could not alloc hw params'' (snd_pcm_hw_params_malloc be))),
         d\<lparr>h := hv, finalizer := True\<rparr>,
         [Call_snd_pcm_open deviceName playback, Call_snd_pcm_hw_params_malloc])
      else if snd_pcm_hw_params_any be <s 0 then
        (Return (Some (createError be ''could not set default hw params'' (snd_pcm_hw_params_any be))),
         d\<lparr>h := hv, finalizer := True\<rparr>,
         [Call_snd_pcm_open deviceName playback, Call_snd_pcm_hw_params_malloc,
          Call_snd_pcm_hw_params_any, Call_snd_pcm_hw_params_free])
      else if snd_pcm_hw_params_set_access be <s 0 then
        (Return (Some (createError be ''could not set access params'' (snd_pcm_hw_params_set_access be))),
         d\<lparr>h := hv, finalizer := True\<rparr>,
         [Call_snd_pcm_open deviceName playback, Call_snd_pcm_hw_params_malloc,
          Call_snd_pcm_hw_params_any, Call_snd_pcm_hw_params_set_access,
          Call_snd_pcm_hw_params_free])
      else
        (case audio of
          None \<Rightarrow>
            (Panic NilDereference,
             d\<lparr>h := hv, finalizer := True\<rparr>,
             [Call_snd_pcm_open deviceName playback, Call_snd_pcm_hw_params_malloc,
              Call_snd_pcm_hw_params_any, Call_snd_pcm_hw_params_set_access,
              Call_snd_pcm_hw_params_free])
        | Some a \<Rightarrow>
            if snd_pcm_hw_params_set_format be (SampleFormat a) <s 0 then
              (Return (Some (createError be ''could not set format params''
                               (snd_pcm_hw_params_set_format be (SampleFormat a)))),
               d\<lparr>h := hv, finalizer := True\<rparr>,
               [Call_snd_pcm_open deviceName playback, Call_snd_pcm_hw_params_malloc,
                Call_snd_pcm_hw_params_any, Call_snd_pcm_hw_params_set_access,
                Call_snd_pcm_hw_params_set_format (SampleFormat a),
                Call_snd_pcm_hw_params_free])
            else if snd_pcm_hw_params_set_channels be (ucast (Channels a)) <s 0 then
              (Return (Some (createError be ''could not set channels params''
                               (snd_pcm_hw_params_set_channels be (ucast (Channels a))))),
               d\<lparr>h := hv, finalizer := True\<rparr>,
               [Call_snd_pcm_open deviceName playback, Call_snd_pcm_hw_params_malloc,
                Call_snd_pcm_hw_params_any, Call_snd_pcm_hw_params_set_access,
                Call_snd_pcm_hw_params_set_format (SampleFormat a),
                Call_snd_pcm_hw_params_set_channels (ucast (Channels a)),
                Call_snd_pcm_hw_params_free])
            else if snd_pcm_hw_params_set_rate be (ucast (SamplingRate a)) <s 0 then
              (Return (Some (createError be ''could not set rate params''
                               (snd_pcm_hw_params_set_rate be (ucast (SamplingRate a))))),
               d\<lparr>h := hv, finalizer := True\<rparr>,
               [Call_snd_pcm_open deviceName playback, Call_snd_pcm_hw_params_malloc,
                Call_snd_pcm_hw_params_any, Call_snd_pcm_hw_params_set_access,
                Call_snd_pcm_hw_params_set_format (SampleFormat a),
                Call_snd_pcm_hw_params_set_channels (ucast (Channels a)),
                Call_snd_pcm_hw_params_set_rate (ucast (SamplingRate a)),
                Call_snd_pcm_hw_params_free])
            else
              (case negotiateBuffers be (SamplingRate a) bufferParams of
                (Inl err, t) \<Rightarrow>
                  (Return (Some err),
                   d\<lparr>h := hv, finalizer := True\<rparr>,
                   [Call_snd_pcm_open deviceName playback, Call_snd_pcm_hw_params_malloc,
                    Call_snd_pcm_hw_params_any, Call_snd_pcm_hw_params_set_access,
                    Call_snd_pcm_hw_params_set_format (SampleFormat a),
                    Call_snd_pcm_hw_params_set_channels (ucast (Channels a)),
                    Call_snd_pcm_hw_params_set_rate (ucast (SamplingRate a))]
                   @ t @ [Call_snd_pcm_hw_params_free])
              | (Inr (bufferSize, periodFrames, periods), t) \<Rightarrow>
                  (Return None,
                   d\<lparr>h := hv, finalizer := True, frames := periodFrames, Audio := audio,
                     BufferParams := \<lparr>BufferFrames = bufferSize, PeriodFrames = periodFrames,
                                      Periods = ucast periods\<rparr>\<rparr>,
                   [Call_snd_pcm_open deviceName playback, Call_snd_pcm_hw_params_malloc,
                    Call_snd_pcm_hw_params_any, Call_snd_pcm_hw_params_set_access,
                    Call_snd_pcm_hw_params_set_format (SampleFormat a),
                    Call_snd_pcm_hw_params_set_channels (ucast (Channels a)),
                    Call_snd_pcm_hw_params_set_rate (ucast (SamplingRate a))]
                   @ t @ [Call_snd_pcm_hw_params_free]))))"

text \<open>
  \<^verbatim>\<open>createDevice\<close> of part_000: the parameters come as three values, so nothing can be
  null, and the device stores them in three fields.
\<close>

definition createDevice_p0 ::
  "backend \<Rightarrow> device_p0 \<Rightarrow> string \<Rightarrow> go_int \<Rightarrow> SampleFormat \<Rightarrow> go_int \<Rightarrow> bool \<Rightarrow> BufferParams \<Rightarrow>
   error option \<times> device_p0 \<times> call list" where
  "createDevice_p0 be d deviceName channels format rate playback bufferParams =
    (case snd_pcm_open be deviceName playback of (ret, hv) \<Rightarrow>
      if ret <s 0 then
        (Some (Errorf (''could not open ALSA device '' @ deviceName)),
         d\<lparr>h_p0 := hv\<rparr>,
         [Call_snd_pcm_open deviceName playback])
      else if snd_pcm_hw_params_malloc be <s 0 then
        (Some (createError be ''could not alloc hw params'' (snd_pcm_hw_params_malloc be)),
         d\<lparr>h_p0 := hv, finalizer_p0 := True\<rparr>,
         [Call_snd_pcm_open deviceName playback, Call_snd_pcm_hw_params_malloc])
      else if snd_pcm_hw_params_any be <s 0 then
        (Some (createError be ''could not set default hw params'' (snd_pcm_hw_params_any be)),
         d\<lparr>h_p0 := hv, finalizer_p0 := True\<rparr>,
         [Call_snd_pcm_open deviceName playback, Call_snd_pcm_hw_params_malloc,
          Call_snd_pcm_hw_params_any, Call_snd_pcm_hw_params_free])
      else if snd_pcm_hw_params_set_access be <s 0 then
        (Some (createError be ''could not set access params'' (snd_pcm_hw_params_set_access be)),
         d\<lparr>h_p0 := hv, finalizer_p0 := True\<rparr>,
         [Call_snd_pcm_open deviceName playback, Call_snd_pcm_hw_params_malloc,
          Call_snd_pcm_hw_params_any, Call_snd_pcm_hw_params_set_access,
          Call_snd_pcm_hw_params_free])
      else if snd_pcm_hw_params_set_format be format <s 0 then
        (Some (createError be ''could not set format params''
                 (snd_pcm_hw_params_set_format be format)),
         d\<lparr>h_p0 := hv, finalizer_p0 := True\<rparr>,
         [Call_snd_pcm_open deviceName playback, Call_snd_pcm_hw_params_malloc,
          Call_snd_pcm_hw_params_any, Call_snd_pcm_hw_params_set_access,
          Call_snd_pcm_hw_params_set_format format,
          Call_snd_pcm_hw_params_free])
      else if snd_pcm_hw_params_set_channels be (ucast channels) <s 0 then
        (Some (createError be ''could not set channels params''
                 (snd_pcm_hw_params_set_channels be (ucast channels))),
         d\<lparr>h_p0 := hv, finalizer_p0 := True\<rparr>,
         [Call_snd_pcm_open deviceName playback, Call_snd_pcm_hw_params_malloc,
          Call_snd_pcm_hw_params_any, Call_snd_pcm_hw_params_set_access,
          Call_snd_pcm_hw_params_set_format format,
          Call_snd_pcm_hw_params_set_channels (ucast channels),
          Call_snd_pcm_hw_params_free])
      else if snd_pcm_hw_params_set_rate be (ucast rate) <s 0 then
        (Some (createError be ''could not set rate params''
                 (snd_pcm_hw_params_set_rate be (ucast rate))),
         d\<lparr>h_p0 := hv, finalizer_p0 := True\<rparr>,
         [Call_snd_pcm_open deviceName playback, Call_snd_pcm_hw_params_malloc,
          Call_snd_pcm_hw_params_any, Call_snd_pcm_hw_params_set_access,
          Call_snd_pcm_hw_params_set_format format,
          Call_snd_pcm_hw_params_set_channels (ucast channels),
          Call_snd_pcm_hw_params_set_rate (ucast rate),
          Call_snd_pcm_hw_params_free])
      else
        (case negotiateBuffers be rate bufferParams of
          (Inl err, t) \<Rightarrow>
            (Some err,
             d\<lparr>h_p0 := hv, finalizer_p0 := True\<rparr>,
             [Call_snd_pcm_open deviceName playback, Call_snd_pcm_hw_params_malloc,
              Call_snd_pcm_hw_params_any, Call_snd_pcm_hw_params_set_access,
              Call_snd_pcm_hw_params_set_format format,
              Call_snd_pcm_hw_params_set_channels (ucast channels),
              Call_snd_pcm_hw_params_set_rate (ucast rate)]
             @ t @ [Call_snd_pcm_hw_params_free])
        | (Inr (bufferSize, periodFrames, periods), t) \<Rightarrow>
            (None,
             d\<lparr>h_p0 := hv, finalizer_p0 := True, frames_p0 := periodFrames,
               Channels_p0 := channels, Format_p0 := format, Rate_p0 := rate,
               BufferParams_p0 := \<lparr>BufferFrames = bufferSize, PeriodFrames = periodFrames,
                                   Periods = ucast periods\<rparr>\<rparr>,
             [Call_snd_pcm_open deviceName playback, Call_snd_pcm_hw_params_malloc,
              Call_snd_pcm_hw_params_any, Call_snd_pcm_hw_params_set_access,
              Call_snd_pcm_hw_params_set_format format,
              Call_snd_pcm_hw_params_set_channels (ucast channels),
              Call_snd_pcm_hw_params_set_rate (ucast rate)]
             @ t @ [Call_snd_pcm_hw_params_free])))"

subsection \<open>Close\<close>

text \<open>
  \<^verbatim>\<open>Close\<close> of alsa.go: the status of \<^verbatim>\<open>snd_pcm_drain\<close> is dropped; a negative status of
  \<^verbatim>\<open>snd_pcm_close\<close> returns at once, before \<^verbatim>\<open>d.h = nil\<close> and before
  \<^verbatim>\<open>runtime.SetFinalizer(d, nil)\<close>.
\<close>

definition Close :: "backend \<Rightarrow> device \<Rightarrow> error option \<times> device \<times> call list" where
  "Close be d =
    (if h d \<noteq> None then
       (if snd_pcm_close be (h d) <s 0 then
          (Some (createError be ''Error closing device handle'' (snd_pcm_close be (h d))),
           d,
           [Call_snd_pcm_drain (h d), Call_snd_pcm_close (h d)])
        else
          (None,
           d\<lparr>h := None, finalizer := False\<rparr>,
           [Call_snd_pcm_drain (h d), Call_snd_pcm_close (h d)]))
     else (None, d\<lparr>finalizer := False\<rparr>, []))"

text \<open>\<^verbatim>\<open>Close\<close> of part_000 has no result; the status of \<^verbatim>\<open>snd_pcm_close\<close> is dropped.\<close>

definition Close_p0 :: "backend \<Rightarrow> device_p0 \<Rightarrow> device_p0 \<times> call list" where
  "Close_p0 be d =
    (if h_p0 d \<noteq> None then
       (d\<lparr>h_p0 := None, finalizer_p0 := False\<rparr>,
        [Call_snd_pcm_drain (h_p0 d), Call_snd_pcm_close (h_p0 d)])
     else (d\<lparr>finalizer_p0 := False\<rparr>, []))"

subsection \<open>Sample sizes\<close>

text \<open>
  The \<^verbatim>\<open>switch\<close> of \<^verbatim>\<open>formatSampleSize\<close>, the same in both files, on the format alone; a
  format outside the eighteen falls through to \<^verbatim>\<open>panic("unsupported format")\<close>.
\<close>

fun sampleSizeOf :: "SampleFormat \<Rightarrow> go_int outcome" where
  "sampleSizeOf SampleFormatS8 = Return 1"
| "sampleSizeOf SampleFormatU8 = Return 1"
| "sampleSizeOf SampleFormatS16LE = Return 2"
| "sampleSizeOf SampleFormatS16BE = Return 2"
| "sampleSizeOf SampleFormatU16LE = Return 2"
| "sampleSizeOf SampleFormatU16BE = Return 2"
| "sampleSizeOf SampleFormatS24LE = Return 4"
| "sampleSizeOf SampleFormatS24BE = Return 4"
| "sampleSizeOf SampleFormatU24LE = Return 4"
| "sampleSizeOf SampleFormatU24BE = Return 4"
| "sampleSizeOf SampleFormatS32LE = Return 4"
| "sampleSizeOf SampleFormatS32BE = Return 4"
| "sampleSizeOf SampleFormatU32LE = Return 4"
| "sampleSizeOf SampleFormatU32BE = Return 4"
| "sampleSizeOf SampleFormatFloatLE = Return 4"
| "sampleSizeOf SampleFormatFloatBE = Return 4"
| "sampleSizeOf SampleFormatFloat64LE = Return 8"
| "sampleSizeOf SampleFormatFloat64BE = Return 8"
| "sampleSizeOf (SampleFormatOther n) = Panic UnsupportedFormat"

text \<open>\<^verbatim>\<open>formatSampleSize\<close> of alsa.go reads the format through the pointer \<^verbatim>\<open>d.Audio\<close>.\<close>

definition formatSampleSize :: "device \<Rightarrow> go_int outcome" where
  "formatSampleSize d =
    (case Audio d of
       None \<Rightarrow> Panic NilDereference
     | Some a \<Rightarrow> sampleSizeOf (SampleFormat a))"

definition formatSampleSize_p0 :: "device_p0 \<Rightarrow> go_int outcome" where
  "formatSampleSize_p0 d = sampleSizeOf (Format_p0 d)"

subsection \<open>Transfers of alsa.go\<close>

text \<open>
  \<^verbatim>\<open>Read\<close> and \<^verbatim>\<open>Write\<close> take a byte slice. Line 306 divides by \<^verbatim>\<open>c.Audio.Channels\<close>, line
  307 takes the address of \<^verbatim>\<open>buffer[0]\<close>: a null \<^verbatim>\<open>Audio\<close>, a zero channel count and an
  empty slice panic, in this order, before any call. The status of
  \<^verbatim>\<open>snd_pcm_prepare\<close> is dropped. The result is the pair \<^verbatim>\<open>(samples, err)\<close>. What the
  library deposits in the caller's buffer is the library's own effect and is not
  represented.
\<close>

definition Read ::
  "backend \<Rightarrow> device \<Rightarrow> 8 word list \<Rightarrow> (go_int \<times> error option) outcome \<times> call list" where
  "Read be c buffer =
    (case Audio c of
       None \<Rightarrow> (Panic NilDereference, [])
     | Some a \<Rightarrow>
         if Channels a = 0 then (Panic DivideByZero, [])
         else if buffer = [] then (Panic IndexOutOfRange, [])
         else
           (let frames = quo (word_of_nat (length buffer)) (Channels a);
                ret = snd_pcm_readi be (h c) frames
            in if ret = - EPIPE then
                 (Return (0, Some ErrOverrun),
                  [Call_snd_pcm_readi (h c) frames, Call_snd_pcm_prepare (h c)])
               else if ret <s 0 then
                 (Return (0, Some (createError be ''read error'' (ucast ret))),
                  [Call_snd_pcm_readi (h c) frames])
               else
                 (Return (ret * Channels a, None),
                  [Call_snd_pcm_readi (h c) frames])))"

definition Write ::
  "backend \<Rightarrow> device \<Rightarrow> 8 word list \<Rightarrow> (go_int \<times> error option) outcome \<times> call list" where
  "Write be p buffer =
    (case Audio p of
       None \<Rightarrow> (Panic NilDereference, [])
     | Some a \<Rightarrow>
         if Channels a = 0 then (Panic DivideByZero, [])
         else if buffer = [] then (Panic IndexOutOfRange, [])
         else
           (let frames = quo (word_of_nat (length buffer)) (Channels a);
                ret = snd_pcm_writei be (h p) frames
            in if ret = - EPIPE then
                 (Return (0, Some ErrUnderrun),
                  [Call_snd_pcm_writei (h p) frames, Call_snd_pcm_prepare (h p)])
               else if ret <s 0 then
                 (Return (0, Some (createError be ''write error'' (ucast ret))),
                  [Call_snd_pcm_writei (h p) frames])
               else
                 (Return (ret * Channels a, None),
                  [Call_snd_pcm_writei (h p) frames])))"

definition Drop :: "backend \<Rightarrow> device \<Rightarrow> error option \<times> call list" where
  "Drop be p =
    (if snd_pcm_drop be (h p) <s 0 then
       (Some (createError be ''Could not drop the stream'' (snd_pcm_drop be (h p))),
        [Call_snd_pcm_drop (h p)])
     else (None, [Call_snd_pcm_drop (h p)]))"

definition Drop_p0 :: "backend \<Rightarrow> device_p0 \<Rightarrow> error option \<times> call list" where
  "Drop_p0 be p =
    (if snd_pcm_drop be (h_p0 p) <s 0 then
       (Some (createError be ''Could not drop the stream'' (snd_pcm_drop be (h_p0 p))),
        [Call_snd_pcm_drop (h_p0 p)])
     else (None, [Call_snd_pcm_drop (h_p0 p)]))"

subsection \<open>Transfers of part_000\<close>

text \<open>The kinds of Go's \<^verbatim>\<open>reflect\<close> package: \<open>reflect_Int8\<close> is \<^verbatim>\<open>reflect.Int8\<close>.\<close>

datatype Kind =
    reflect_Invalid | reflect_Bool
  | reflect_Int | reflect_Int8 | reflect_Int16 | reflect_Int32 | reflect_Int64
  | reflect_Uint | reflect_Uint8 | reflect_Uint16 | reflect_Uint32 | reflect_Uint64
  | reflect_Uintptr
  | reflect_Float32 | reflect_Float64 | reflect_Complex64 | reflect_Complex128
  | reflect_Array | reflect_Chan | reflect_Func | reflect_Interface | reflect_Map
  | reflect_Pointer | reflect_Slice | reflect_String | reflect_Struct
  | reflect_UnsafePointer

text \<open>
  The \<^verbatim>\<open>interface{}\<close> argument of \<^verbatim>\<open>Read\<close> and \<^verbatim>\<open>Write\<close>, as far as the code inspects it:
  the nil interface, or a value with the kind of its type, the kind of the type's
  element type and its length \<open>len0\<close> (the last two are read for arrays and slices
  only).
\<close>

datatype iface = NilInterface | Value Kind Kind nat

text \<open>
  One \<^verbatim>\<open>case\<close> of the \<^verbatim>\<open>switch\<close> on the element kind: \<^verbatim>\<open>ErrSize\<close> when the sample size of
  the device's format is not \<open>n\<close>. \<open>Return None\<close> stands for leaving the \<^verbatim>\<open>switch\<close>.
\<close>

definition sizeCase_p0 :: "device_p0 \<Rightarrow> go_int \<Rightarrow> error option outcome" where
  "sizeCase_p0 c n =
    (case formatSampleSize_p0 c of
       Panic p \<Rightarrow> Panic p
     | Return s \<Rightarrow> if s \<noteq> n then Return (Some ErrSize) else Return None)"

text \<open>
  The \<^verbatim>\<open>switch bufferType.Elem().Kind()\<close>, the same in \<^verbatim>\<open>Read\<close> and \<^verbatim>\<open>Write\<close> but for the
  message of the \<^verbatim>\<open>default\<close> case.
\<close>

definition elemSwitch_p0 :: "device_p0 \<Rightarrow> string \<Rightarrow> Kind \<Rightarrow> error option outcome" where
  "elemSwitch_p0 c msg k =
    (case k of
       reflect_Int8 \<Rightarrow> sizeCase_p0 c 1
     | reflect_Int16 \<Rightarrow> sizeCase_p0 c 2
     | reflect_Int32 \<Rightarrow> sizeCase_p0 c 4
     | reflect_Float32 \<Rightarrow> sizeCase_p0 c 4
     | reflect_Float64 \<Rightarrow> sizeCase_p0 c 8
     | _ \<Rightarrow> Return (Some (ErrorsNew msg)))"

text \<open>
  \<^verbatim>\<open>Read\<close> of part_000. \<^verbatim>\<open>reflect.TypeOf\<close> of the nil interface is nil, and its \<^verbatim>\<open>Kind()\<close>
  panics. \<^verbatim>\<open>val.Slice(0, length)\<close> panics on an array, which \<^verbatim>\<open>reflect.ValueOf\<close> never
  makes addressable. Then line 331 divides by \<^verbatim>\<open>c.Channels\<close> and line 332 takes
  \<^verbatim>\<open>Index(0)\<close>.
\<close>

definition Read_p0 ::
  "backend \<Rightarrow> device_p0 \<Rightarrow> iface \<Rightarrow> (go_int \<times> error option) outcome \<times> call list" where
  "Read_p0 be c buffer =
    (case buffer of
       NilInterface \<Rightarrow> (Panic NilDereference, [])
     | Value k ek len0 \<Rightarrow>
         if \<not> (k = reflect_Array \<or> k = reflect_Slice) then
           (Return (0, Some (ErrorsNew ''Read requires an array type'')), [])
         else
           (case elemSwitch_p0 c ''Unsupported sample format'' ek of
              Panic p \<Rightarrow> (Panic p, [])
            | Return (Some err) \<Rightarrow> (Return (0, Some err), [])
            | Return None \<Rightarrow>
                if k = reflect_Array then (Panic SliceOfUnaddressableArray, [])
                else if Channels_p0 c = 0 then (Panic DivideByZero, [])
                else if len0 = 0 then (Panic IndexOutOfRange, [])
                else
                  (let frames = quo (word_of_nat len0) (Channels_p0 c);
                       ret = snd_pcm_readi be (h_p0 c) frames
                   in if ret = - EPIPE then
                        (Return (0, Some ErrOverrun),
                         [Call_snd_pcm_readi (h_p0 c) frames, Call_snd_pcm_prepare (h_p0 c)])
                      else if ret <s 0 then
                        (Return (0, Some (createError be ''read error'' (ucast ret))),
                         [Call_snd_pcm_readi (h_p0 c) frames])
                      else
                        (Return (ret * Channels_p0 c, None),
                         [Call_snd_pcm_readi (h_p0 c) frames]))))"

definition Write_p0 ::
  "backend \<Rightarrow> device_p0 \<Rightarrow> iface \<Rightarrow> (go_int \<times> error option) outcome \<times> call list" where
  "Write_p0 be p buffer =
    (case buffer of
       NilInterface \<Rightarrow> (Panic NilDereference, [])
     | Value k ek len0 \<Rightarrow>
         if \<not> (k = reflect_Array \<or> k = reflect_Slice) then
           (Return (0, Some (ErrorsNew ''Write requires an array type'')), [])
         else
           (case elemSwitch_p0 p ''Write does not support this format'' ek of
              Panic pn \<Rightarrow> (Panic pn, [])
            | Return (Some err) \<Rightarrow> (Return (0, Some err), [])
            | Return None \<Rightarrow>
                if k = reflect_Array then (Panic SliceOfUnaddressableArray, [])
                else if Channels_p0 p = 0 then (Panic DivideByZero, [])
                else if len0 = 0 then (Panic IndexOutOfRange, [])
                else
                  (let frames = quo (word_of_nat len0) (Channels_p0 p);
                       ret = snd_pcm_writei be (h_p0 p) frames
                   in if ret = - EPIPE then
                        (Return (0, Some ErrUnderrun),
                         [Call_snd_pcm_writei (h_p0 p) frames, Call_snd_pcm_prepare (h_p0 p)])
                      else if ret <s 0 then
                        (Return (0, Some (createError be ''write error'' (ucast ret))),
                         [Call_snd_pcm_writei (h_p0 p) frames])
                      else
                        (Return (ret * Channels_p0 p, None),
                         [Call_snd_pcm_writei (h_p0 p) frames]))))"

subsection \<open>Notions of the specification\<close>

text \<open>
  The period length the specification asks for, in its own words: the hint's
  period-frame count if positive; else, if the hint's period count is positive, the
  resolved buffer length divided by it; else one eighth of the sample rate. The values
  are read as signed integers and the division is Go's (\<open>sdiv\<close> truncates towards zero;
  on operands that are not negative it is \<open>div\<close>).
\<close>

definition spec_period_length :: "BufferParams \<Rightarrow> go_int \<Rightarrow> snd_pcm_uframes_t \<Rightarrow> int" where
  "spec_period_length hint rate resolved =
    (if 0 < sint (PeriodFrames hint) then sint (PeriodFrames hint)
     else if 0 < sint (Periods hint) then sint resolved sdiv sint (Periods hint)
     else sint rate sdiv 8)"

text \<open>
  The resolved buffer length: what the backend makes of the hint's buffer length, or of
  its own maximum when the hint's is zero.
\<close>

definition resolved_buffer_length :: "backend \<Rightarrow> BufferParams \<Rightarrow> snd_pcm_uframes_t" where
  "resolved_buffer_length be hint =
    snd (snd_pcm_hw_params_set_buffer_size_near be
          (if BufferFrames hint = 0 then snd (snd_pcm_hw_params_get_buffer_size_max be)
           else BufferFrames hint))"

text \<open>
  The accepted period length: what the backend makes of the period length asked for.
\<close>

definition accepted_period_length ::
  "backend \<Rightarrow> BufferParams \<Rightarrow> go_int \<Rightarrow> snd_pcm_uframes_t" where
  "accepted_period_length be hint rate =
    snd (snd_pcm_hw_params_set_period_size_near be
          (word_of_int (spec_period_length hint rate (resolved_buffer_length be hint))))"

text \<open>
  Modelled from the spec: the ALSA library, which decides the buffer and period sizes it
  accepts, is not part of the repository. The glossary of the specification says of it
  that "buffer size is a multiple of period size": the accepted buffer length is a
  positive multiple of the accepted period length, both as the unsigned frame counts the
  library writes. A buffer is held in memory, so its frame count is below \<open>2 ^ 63\<close> and
  Go's \<^verbatim>\<open>int\<close> holds it.
\<close>

definition backend_layout_contract :: "backend \<Rightarrow> BufferParams \<Rightarrow> go_int \<Rightarrow> bool" where
  "backend_layout_contract be hint rate \<longleftrightarrow>
     0 < unat (resolved_buffer_length be hint)
     \<and> unat (accepted_period_length be hint rate) dvd unat (resolved_buffer_length be hint)
     \<and> unat (resolved_buffer_length be hint) < 2 ^ 63"

text \<open>
  The byte width of a value of each kind on the 64-bit target, as Go's \<^verbatim>\<open>unsafe.Sizeof\<close>
  gives it; arrays and structs have no width of their own.
\<close>

definition kindWidth :: "Kind \<Rightarrow> go_int option" where
  "kindWidth k =
    (case k of
       reflect_Bool \<Rightarrow> Some 1 | reflect_Int8 \<Rightarrow> Some 1 | reflect_Uint8 \<Rightarrow> Some 1
     | reflect_Int16 \<Rightarrow> Some 2 | reflect_Uint16 \<Rightarrow> Some 2
     | reflect_Int32 \<Rightarrow> Some 4 | reflect_Uint32 \<Rightarrow> Some 4 | reflect_Float32 \<Rightarrow> Some 4
     | reflect_Int \<Rightarrow> Some 8 | reflect_Int64 \<Rightarrow> Some 8
     | reflect_Uint \<Rightarrow> Some 8 | reflect_Uint64 \<Rightarrow> Some 8
     | reflect_Uintptr \<Rightarrow> Some 8 | reflect_Float64 \<Rightarrow> Some 8 | reflect_Complex64 \<Rightarrow> Some 8
     | reflect_Complex128 \<Rightarrow> Some 16
     | reflect_Chan \<Rightarrow> Some 8 | reflect_Func \<Rightarrow> Some 8 | reflect_Map \<Rightarrow> Some 8
     | reflect_Pointer \<Rightarrow> Some 8
     | reflect_UnsafePointer \<Rightarrow> Some 8
     | reflect_Interface \<Rightarrow> Some 16 | reflect_String \<Rightarrow> Some 16 | reflect_Slice \<Rightarrow> Some 24
     | _ \<Rightarrow> None)"

text \<open>
  Every mixer call that \<^verbatim>\<open>SetMasterVolume\<close> and \<^verbatim>\<open>GetMasterVolume\<close> of alsa.go make before
  they touch the volume succeeds; part_000 does not call \<^verbatim>\<open>snd_mixer_selem_register\<close>.
\<close>

definition mixer_ready :: "backend \<Rightarrow> bool" where
  "mixer_ready be \<longleftrightarrow>
     \<not> snd_mixer_open be <s 0 \<and> \<not> snd_mixer_selem_register be <s 0
     \<and> \<not> snd_mixer_load be <s 0 \<and> \<not> snd_mixer_selem_id_malloc be <s 0
     \<and> \<not> fst (snd_mixer_selem_get_playback_volume_range be) <s 0"

definition mixer_ready_p0 :: "backend \<Rightarrow> bool" where
  "mixer_ready_p0 be \<longleftrightarrow>
     \<not> snd_mixer_open be <s 0
     \<and> \<not> snd_mixer_load be <s 0 \<and> \<not> snd_mixer_selem_id_malloc be <s 0
     \<and> \<not> fst (snd_mixer_selem_get_playback_volume_range be) <s 0"

subsection \<open>Concrete backends and devices\<close>

text \<open>
  A backend on which every call succeeds: it opens handle 1, accepts the sizes asked
  for, reports four periods, transfers every frame, and its mixer element has the range
  10 to 110 with the volume at 60.
\<close>

definition ok_backend :: backend where
  "ok_backend =
    \<lparr>snd_strerror = (\<lambda>_. ''Broken pipe''),
     snd_pcm_open = (\<lambda>_ _. (0, Some 1)),
     snd_pcm_hw_params_malloc = 0,
     snd_pcm_hw_params_any = 0,
     snd_pcm_hw_params_set_access = 0,
     snd_pcm_hw_params_set_format = (\<lambda>_. 0),
     snd_pcm_hw_params_set_channels = (\<lambda>_. 0),
     snd_pcm_hw_params_set_rate = (\<lambda>_. 0),
     snd_pcm_hw_params_get_buffer_size_max = (0, 16384),
     snd_pcm_hw_params_set_buffer_size_near = (\<lambda>v. (0, v)),
     snd_pcm_hw_params_set_period_size_near = (\<lambda>v. (0, v)),
     snd_pcm_hw_params_get_periods = (0, 4),
     snd_pcm_hw_params = 0,
     snd_pcm_close = (\<lambda>_. 0),
     snd_pcm_readi = (\<lambda>_ n. n),
     snd_pcm_writei = (\<lambda>_ n. n),
     snd_pcm_drop = (\<lambda>_. 0),
     snd_mixer_open = 0,
     snd_mixer_selem_register = 0,
     snd_mixer_load = 0,
     snd_mixer_selem_id_malloc = 0,
     snd_mixer_selem_get_playback_volume_range = (0, 10, 110),
     snd_mixer_selem_set_playback_volume_all = (\<lambda>_. 0),
     snd_mixer_selem_get_playback_volume = (0, 60)\<rparr>"

text \<open>The same backend with a mixer range from 100 to 200.\<close>

definition offset_backend :: backend where
  "offset_backend = ok_backend\<lparr>snd_mixer_selem_get_playback_volume_range := (0, 100, 200)\<rparr>"

text \<open>The same backend with both transfer calls answering \<open>-EPIPE\<close>.\<close>

definition pipe_backend :: backend where
  "pipe_backend = ok_backend\<lparr>snd_pcm_readi := (\<lambda>_ _. - 32), snd_pcm_writei := (\<lambda>_ _. - 32)\<rparr>"

text \<open>Stereo, 48 kHz, signed 16-bit little-endian.\<close>

definition cd_audio :: AudioParams where
  "cd_audio = \<lparr>Channels = 2, SamplingRate = 48000, SampleFormat = SampleFormatS16LE\<rparr>"

definition no_hint :: BufferParams where
  "no_hint = \<lparr>BufferFrames = 0, PeriodFrames = 0, Periods = 0\<rparr>"

text \<open>
  A hint with a buffer of 8192 frames that gives both a period length and a period
  count, and one that gives the count alone.
\<close>

definition both_hint :: BufferParams where
  "both_hint = \<lparr>BufferFrames = 8192, PeriodFrames = 1024, Periods = 4\<rparr>"

definition count_hint :: BufferParams where
  "count_hint = \<lparr>BufferFrames = 8192, PeriodFrames = 0, Periods = 4\<rparr>"

text \<open>A device as \<^verbatim>\<open>new(CaptureDevice)\<close> makes it, and one that is open on handle 1.\<close>

definition new_dev :: device where
  "new_dev = \<lparr>h = None, Audio = None, BufferParams = no_hint, frames = 0, finalizer = False\<rparr>"

definition open_dev :: device where
  "open_dev =
    \<lparr>h = Some 1, Audio = Some cd_audio,
     BufferParams = \<lparr>BufferFrames = 16384, PeriodFrames = 6000, Periods = 4\<rparr>,
     frames = 6000, finalizer = True\<rparr>"

definition new_dev_p0 :: device_p0 where
  "new_dev_p0 =
    \<lparr>h_p0 = None, Channels_p0 = 0, Format_p0 = SampleFormatS8, Rate_p0 = 0,
     BufferParams_p0 = no_hint, frames_p0 = 0, finalizer_p0 = False\<rparr>"

text \<open>A part_000 device open on handle 1: stereo, 48 kHz, signed 8-bit.\<close>

definition open_dev_p0 :: device_p0 where
  "open_dev_p0 =
    \<lparr>h_p0 = Some 1, Channels_p0 = 2, Format_p0 = SampleFormatS8, Rate_p0 = 48000,
     BufferParams_p0 = \<lparr>BufferFrames = 16384, PeriodFrames = 6000, Periods = 4\<rparr>,
     frames_p0 = 6000, finalizer_p0 = True\<rparr>"

section \<open>Signed arithmetic on 64-bit words\<close>

lemma sint64_of_int:
  "- (2 ^ 63) \<le> k \<Longrightarrow> k < 2 ^ 63 \<Longrightarrow> sint (word_of_int k :: 64 word) = k"
  by (simp add: sint_sbintrunc' signed_take_bit_int_eq_self)

lemma sint64_diff:
  fixes a b :: "64 word"
  shows "- (2 ^ 63) \<le> sint a - sint b \<Longrightarrow> sint a - sint b < 2 ^ 63
    \<Longrightarrow> sint (a - b) = sint a - sint b"
  by (simp add: sint_word_ariths signed_take_bit_int_eq_self)

lemma sint64_add:
  fixes a b :: "64 word"
  shows "- (2 ^ 63) \<le> sint a + sint b \<Longrightarrow> sint a + sint b < 2 ^ 63
    \<Longrightarrow> sint (a + b) = sint a + sint b"
  by (simp add: sint_word_ariths signed_take_bit_int_eq_self)

lemma sint64_mult:
  fixes a b :: "64 word"
  shows "- (2 ^ 63) \<le> sint a * sint b \<Longrightarrow> sint a * sint b < 2 ^ 63
    \<Longrightarrow> sint (a * b) = sint a * sint b"
  by (simp add: sint_word_ariths signed_take_bit_int_eq_self)

lemma sdiv_nonneg: "0 \<le> (a::int) \<Longrightarrow> 0 < b \<Longrightarrow> a sdiv b = a div b"
  by (simp add: signed_divide_int_def sgn_if)

lemma zdiv_le_self:
  fixes a b :: int
  assumes "0 \<le> a" "0 < b"
  shows "a div b \<le> a"
proof -
  have q: "0 \<le> a div b" using assms by (simp add: pos_imp_zdiv_nonneg_iff)
  have "a div b * 1 \<le> a div b * b"
    using q assms by (intro mult_left_mono) simp_all
  moreover have "a div b * b \<le> a"
    using div_mult_mod_eq [of a b] pos_mod_sign [of b a] assms by linarith
  ultimately show ?thesis by simp
qed

text \<open>An unsigned value below \<open>2 ^ 63\<close> reads the same as a signed one.\<close>

lemma sint64_unat:
  fixes w :: "64 word"
  assumes "unat w < 2 ^ 63"
  shows "sint w = int (unat w)"
proof -
  have "int (unat w) < int (2 ^ 63)"
    using assms by (simp only: of_nat_less_iff)
  then have u: "uint w < 2 ^ 63" by simp
  have "sint w = signed_take_bit 63 (uint w)" by (simp add: sint_uint)
  also have "\<dots> = uint w"
  proof (rule signed_take_bit_int_eq_self)
    have n: "(0::int) \<le> uint w" by simp
    have "- (2 ^ 63) \<le> (0::int)" by simp
    then show "- (2 ^ 63) \<le> uint w" using n by (rule order_trans)
    show "uint w < 2 ^ 63" by (rule u)
  qed
  finally show ?thesis by (simp only: uint_nat)
qed

text \<open>On operands that are not negative Go's quotient is the mathematical one.\<close>

lemma sint64_quo_nonneg:
  fixes a b :: "64 word"
  assumes "0 \<le> sint a" "0 < sint b"
  shows "sint (quo a b) = sint a div sint b"
proof -
  have "sint a div sint b \<le> sint a"
    using assms by (rule zdiv_le_self)
  moreover have "sint a < 2 ^ 63" using sint_lt [of a] by simp
  moreover have "0 \<le> sint a div sint b" using assms by (simp add: pos_imp_zdiv_nonneg_iff)
  ultimately show ?thesis
    using assms by (simp add: quo_def sdiv_nonneg sint64_of_int)
qed

text \<open>
  Scaling a percentage \<open>p\<close> onto a span \<open>T\<close> and back loses less than one native step
  and one percent.
\<close>

lemma round_trip_int:
  fixes p T :: int
  assumes "0 \<le> p" "0 < T"
  shows "100 * (p * T div 100) div T \<le> p"
    and "(p - 100 * (p * T div 100) div T) * T < 100 + T"
proof -
  define n where "n = p * T div 100"
  define g where "g = 100 * n div T"
  have n1: "100 * n \<le> p * T"
    unfolding n_def
    using div_mult_mod_eq [of "p * T" 100] pos_mod_sign [of 100 "p * T"] by linarith
  have n2: "p * T < 100 * n + 100"
    unfolding n_def
    using div_mult_mod_eq [of "p * T" 100] pos_mod_bound [of 100 "p * T"] by linarith
  have g1: "g * T \<le> 100 * n"
    unfolding g_def
    using div_mult_mod_eq [of "100 * n" T] pos_mod_sign [of T "100 * n"] assms by linarith
  have g2: "100 * n < g * T + T"
    unfolding g_def
    using div_mult_mod_eq [of "100 * n" T] pos_mod_bound [of T "100 * n"] assms by linarith
  have "g * T \<le> p * T" using g1 n1 by linarith
  then show "100 * (p * T div 100) div T \<le> p"
    using assms unfolding g_def n_def by (simp add: mult_le_cancel_right)
  have "p * T - g * T < 100 + T" using n2 g2 by linarith
  then show "(p - 100 * (p * T div 100) div T) * T < 100 + T"
    unfolding g_def n_def by (simp add: algebra_simps)
qed

section \<open>Close\<close>

text \<open>
  C3. Once \<^verbatim>\<open>Close\<close> has succeeded the handle field is null, and a further \<^verbatim>\<open>Close\<close>, on
  any backend, returns no error, makes no call at all (so it neither drains nor releases
  the handle again) and leaves the device as it was; the device being unchanged, the
  same holds for every later call. In alsa.go success is the result \<^verbatim>\<open>nil\<close>; in part_000
  \<^verbatim>\<open>Close\<close> has no result and every call counts.
\<close>

theorem Close_idempotent:
  "(Close be d = (None, d', t) \<longrightarrow>
      h d' = None \<and> Close be' d' = (None, d', []))
   \<and> (Close_p0 be d0 = (d0', t0) \<longrightarrow>
      h_p0 d0' = None \<and> Close_p0 be' d0' = (d0', []))"
  by (auto simp add: Close_def Close_p0_def split: if_splits)

theorem Close_idempotent_witness:
  "Close ok_backend open_dev =
     (None, open_dev\<lparr>h := None, finalizer := False\<rparr>,
      [Call_snd_pcm_drain (Some 1), Call_snd_pcm_close (Some 1)])
   \<and> h (open_dev\<lparr>h := None, finalizer := False\<rparr>) = None
   \<and> Close (ok_backend\<lparr>snd_pcm_close := (\<lambda>_. - 1)\<rparr>) (open_dev\<lparr>h := None, finalizer := False\<rparr>) =
     (None, open_dev\<lparr>h := None, finalizer := False\<rparr>, [])
   \<and> Close_p0 ok_backend open_dev_p0 =
     (open_dev_p0\<lparr>h_p0 := None, finalizer_p0 := False\<rparr>,
      [Call_snd_pcm_drain (Some 1), Call_snd_pcm_close (Some 1)])
   \<and> Close_p0 (ok_backend\<lparr>snd_pcm_close := (\<lambda>_. - 1)\<rparr>)
        (open_dev_p0\<lparr>h_p0 := None, finalizer_p0 := False\<rparr>) =
     (open_dev_p0\<lparr>h_p0 := None, finalizer_p0 := False\<rparr>, [])"
proof -
  have a: "Close ok_backend open_dev =
     (None, open_dev\<lparr>h := None, finalizer := False\<rparr>,
      [Call_snd_pcm_drain (Some 1), Call_snd_pcm_close (Some 1)])"
    by (simp add: Close_def ok_backend_def open_dev_def)
  have b: "Close_p0 ok_backend open_dev_p0 =
     (open_dev_p0\<lparr>h_p0 := None, finalizer_p0 := False\<rparr>,
      [Call_snd_pcm_drain (Some 1), Call_snd_pcm_close (Some 1)])"
    by (simp add: Close_p0_def ok_backend_def open_dev_p0_def)
  show ?thesis
    using a b
      Close_idempotent [where be = ok_backend and d = open_dev
        and d' = "open_dev\<lparr>h := None, finalizer := False\<rparr>"
        and t = "[Call_snd_pcm_drain (Some 1), Call_snd_pcm_close (Some 1)]"
        and be' = "ok_backend\<lparr>snd_pcm_close := (\<lambda>_. - 1)\<rparr>"
        and ?d0.0 = open_dev_p0
        and d0' = "open_dev_p0\<lparr>h_p0 := None, finalizer_p0 := False\<rparr>"
        and ?t0.0 = "[Call_snd_pcm_drain (Some 1), Call_snd_pcm_close (Some 1)]"]
    by simp
qed

text \<open>
  C8, as stated, fails in each file. In alsa.go a \<^verbatim>\<open>Close\<close> whose release reports an error
  returns that error and leaves the handle in place. In part_000 \<^verbatim>\<open>Close\<close> has no result:
  with a release that fails it returns to the caller exactly what it returns with one
  that succeeds.
\<close>

theorem Close_failure_counterexample:
  "snd_pcm_close (ok_backend\<lparr>snd_pcm_close := (\<lambda>_. - 1)\<rparr>) (Some 1) <s 0
   \<and> h (fst (snd (Close (ok_backend\<lparr>snd_pcm_close := (\<lambda>_. - 1)\<rparr>) open_dev))) = Some 1
   \<and> Close_p0 (ok_backend\<lparr>snd_pcm_close := (\<lambda>_. - 1)\<rparr>) open_dev_p0 =
     Close_p0 ok_backend open_dev_p0"
  by (simp add: Close_def Close_p0_def ok_backend_def open_dev_def open_dev_p0_def)

text \<open>
  C8, amended. When the release step of a \<^verbatim>\<open>Close\<close> on an open device reports an error:
  in alsa.go the device was drained and released once and the failure is returned to the
  caller as the error "Error closing device handle: ..."; in part_000 the device was
  drained and released once, and the handle field and the finalizer are cleared.
\<close>

theorem Close_failure_amended:
  "(h d \<noteq> None \<and> snd_pcm_close be (h d) <s 0 \<longrightarrow>
      fst (Close be d) =
        Some (createError be ''Error closing device handle'' (snd_pcm_close be (h d)))
      \<and> snd (snd (Close be d)) = [Call_snd_pcm_drain (h d), Call_snd_pcm_close (h d)])
   \<and> (h_p0 d0 \<noteq> None \<and> snd_pcm_close be (h_p0 d0) <s 0 \<longrightarrow>
      h_p0 (fst (Close_p0 be d0)) = None
      \<and> finalizer_p0 (fst (Close_p0 be d0)) = False
      \<and> snd (Close_p0 be d0) = [Call_snd_pcm_drain (h_p0 d0), Call_snd_pcm_close (h_p0 d0)])"
  by (simp add: Close_def Close_p0_def)

theorem Close_failure_amended_witness:
  "h open_dev \<noteq> None
   \<and> snd_pcm_close (ok_backend\<lparr>snd_pcm_close := (\<lambda>_. - 1)\<rparr>) (h open_dev) <s 0
   \<and> fst (Close (ok_backend\<lparr>snd_pcm_close := (\<lambda>_. - 1)\<rparr>) open_dev) =
       Some (Errorf ''Error closing device handle: Broken pipe'')
   \<and> h_p0 open_dev_p0 \<noteq> None
   \<and> snd_pcm_close (ok_backend\<lparr>snd_pcm_close := (\<lambda>_. - 1)\<rparr>) (h_p0 open_dev_p0) <s 0
   \<and> h_p0 (fst (Close_p0 (ok_backend\<lparr>snd_pcm_close := (\<lambda>_. - 1)\<rparr>) open_dev_p0)) = None"
  using Close_failure_amended [where be = "ok_backend\<lparr>snd_pcm_close := (\<lambda>_. - 1)\<rparr>"
      and d = open_dev and ?d0.0 = open_dev_p0]
  by (simp add: ok_backend_def open_dev_def open_dev_p0_def createError_def)

section \<open>Master volume\<close>

text \<open>
  C9. When the backend reports a volume range whose minimum equals its maximum and
  every call up to the division succeeds, \<^verbatim>\<open>GetMasterVolume\<close> panics with a division by
  zero and returns no error, in alsa.go and in part_000.
\<close>

theorem GetMasterVolume_empty_range_panics:
  assumes "\<not> snd_mixer_open be <s 0"
    and "\<not> snd_mixer_load be <s 0"
    and "\<not> snd_mixer_selem_id_malloc be <s 0"
    and "snd_mixer_selem_get_playback_volume_range be = (r, m, m)"
    and "\<not> r <s 0"
    and "snd_mixer_selem_get_playback_volume be = (r', v)"
    and "\<not> r' <s 0"
  shows "(\<not> snd_mixer_selem_register be <s 0 \<longrightarrow>
            fst (GetMasterVolume be) = Panic DivideByZero)
         \<and> fst (GetMasterVolume_p0 be) = Panic DivideByZero"
  using assms by (simp add: GetMasterVolume_def GetMasterVolume_p0_def)

theorem GetMasterVolume_empty_range_panics_witness:
  "\<not> snd_mixer_selem_register
        (ok_backend\<lparr>snd_mixer_selem_get_playback_volume_range := (0, 7, 7)\<rparr>) <s 0
   \<and> fst (GetMasterVolume
        (ok_backend\<lparr>snd_mixer_selem_get_playback_volume_range := (0, 7, 7)\<rparr>))
       = Panic DivideByZero
   \<and> fst (GetMasterVolume_p0
        (ok_backend\<lparr>snd_mixer_selem_get_playback_volume_range := (0, 7, 7)\<rparr>))
       = Panic DivideByZero"
  using GetMasterVolume_empty_range_panics
    [where be = "ok_backend\<lparr>snd_mixer_selem_get_playback_volume_range := (0, 7, 7)\<rparr>"
       and r = 0 and m = 7 and r' = 0 and v = 60]
  by (simp add: ok_backend_def)

subsection \<open>What alsa.go sets and reads\<close>

lemma SetMasterVolume_calls:
  assumes "mixer_ready be"
    and "snd_mixer_selem_get_playback_volume_range be = (r, mn, mx)"
  shows "snd (SetMasterVolume be volume) =
    [Call_snd_mixer_open, Call_snd_mixer_attach card, Call_snd_mixer_selem_register,
     Call_snd_mixer_load, Call_snd_mixer_selem_id_malloc,
     Call_snd_mixer_selem_id_set_index, Call_snd_mixer_selem_id_set_name mixer,
     Call_snd_mixer_find_selem, Call_snd_mixer_selem_get_playback_volume_range,
     Call_snd_mixer_selem_set_playback_volume_all (quo (volume * (mx - mn)) 100 + mn),
     Call_snd_mixer_selem_id_free, Call_snd_mixer_close]"
  using assms by (simp add: SetMasterVolume_def mixer_ready_def Let_def)

lemma SetMasterVolume_p0_calls:
  assumes "mixer_ready_p0 be"
    and "snd_mixer_selem_get_playback_volume_range be = (r, mn, mx)"
  shows "snd (SetMasterVolume_p0 be volume) =
    [Call_snd_mixer_open, Call_snd_mixer_attach card,
     Call_snd_mixer_load, Call_snd_mixer_selem_id_malloc,
     Call_snd_mixer_selem_id_set_index, Call_snd_mixer_selem_id_set_name mixer_p0,
     Call_snd_mixer_find_selem, Call_snd_mixer_selem_get_playback_volume_range,
     Call_snd_mixer_selem_set_playback_volume_all (quo (volume * mx) 100),
     Call_snd_mixer_selem_id_free, Call_snd_mixer_close]"
  using assms by (simp add: SetMasterVolume_p0_def mixer_ready_p0_def Let_def)

text \<open>
  Read as integers: for a percentage from 0 to 100 and a range whose span times 100 fits
  in 64 bits, nothing wraps, and the value alsa.go sets is
  \<open>min + percent * (max - min) div 100\<close>.
\<close>

lemma linear_map_sint:
  fixes volume mn mx :: "64 word"
  assumes p: "0 \<le> sint volume" "sint volume \<le> 100"
    and T: "sint mn \<le> sint mx" "100 * (sint mx - sint mn) < 2 ^ 63"
  shows "sint (quo (volume * (mx - mn)) 100 + mn) =
         sint mn + sint volume * (sint mx - sint mn) div 100"
    and "sint (mx - mn) = sint mx - sint mn"
    and "sint (quo (volume * (mx - mn)) 100) = sint volume * (sint mx - sint mn) div 100"
proof -
  let ?T = "sint mx - sint mn"
  let ?p = "sint volume"
  have T0: "0 \<le> ?T" using T by simp
  have d: "sint (mx - mn) = ?T"
    using T T0 by (intro sint64_diff) simp_all
  show "sint (mx - mn) = ?T" by (rule d)
  have pT: "?p * ?T \<le> 100 * ?T" using p T0 by (intro mult_right_mono) simp_all
  have pT0: "0 \<le> ?p * ?T" using p T0 by simp
  have m: "sint (volume * (mx - mn)) = ?p * ?T"
    using sint64_mult [of volume "mx - mn"] d pT pT0 T by simp
  have q: "sint (quo (volume * (mx - mn)) 100) = ?p * ?T div 100"
    using sint64_quo_nonneg [of "volume * (mx - mn)" 100] m pT0 by simp
  show "sint (quo (volume * (mx - mn)) 100) = ?p * ?T div 100" by (rule q)
  have n0: "0 \<le> ?p * ?T div 100" using pT0 by (simp add: pos_imp_zdiv_nonneg_iff)
  have n1: "?p * ?T div 100 \<le> ?T"
    using pT zdiv_mono1 [of "?p * ?T" "100 * ?T" 100] by simp
  have "sint mx < 2 ^ 63" using sint_lt [of mx] by simp
  moreover have "- (2 ^ 63) \<le> sint mn" using sint_ge [of mn] by simp
  ultimately show "sint (quo (volume * (mx - mn)) 100 + mn) = sint mn + ?p * ?T div 100"
    using sint64_add [of "quo (volume * (mx - mn)) 100" mn] q n0 n1 by simp
qed

lemma GetMasterVolume_value:
  assumes "mixer_ready be"
    and "snd_mixer_selem_get_playback_volume_range be = (r, mn, mx)"
    and "snd_mixer_selem_get_playback_volume be = (r', v)"
    and "\<not> r' <s 0"
    and "mx \<noteq> mn"
  shows "fst (GetMasterVolume be) = Return (quo (100 * (v - mn)) (mx - mn), None)"
  using assms by (simp add: GetMasterVolume_def mixer_ready_def Let_def)

lemma round_trip_sint:
  fixes volume mn mx :: "64 word"
  assumes p: "0 \<le> sint volume" "sint volume \<le> 100"
    and T: "sint mn < sint mx" "100 * (sint mx - sint mn) < 2 ^ 63"
  shows "sint (quo (100 * (quo (volume * (mx - mn)) 100 + mn - mn)) (mx - mn)) =
         100 * (sint volume * (sint mx - sint mn) div 100) div (sint mx - sint mn)"
proof -
  let ?T = "sint mx - sint mn"
  let ?p = "sint volume"
  let ?n = "?p * ?T div 100"
  let ?w = "quo (volume * (mx - mn)) 100"
  have T': "sint mn \<le> sint mx" using T by simp
  have d: "sint (mx - mn) = ?T" using p T' T(2) by (rule linear_map_sint(2))
  have w: "sint ?w = ?n" using p T' T(2) by (rule linear_map_sint(3))
  have T0: "0 \<le> ?T" using T by simp
  have pT: "?p * ?T \<le> 100 * ?T" using p T0 by (intro mult_right_mono) simp_all
  have pT0: "0 \<le> ?p * ?T" using p T0 by simp
  have n0: "0 \<le> ?n" using pT0 by (simp add: pos_imp_zdiv_nonneg_iff)
  have n1: "?n \<le> ?T" using pT zdiv_mono1 [of "?p * ?T" "100 * ?T" 100] by simp
  have h: "sint (100 * ?w) = 100 * ?n"
    using sint64_mult [of 100 ?w] w n0 n1 T by simp
  have "sint (quo (100 * ?w) (mx - mn)) = 100 * ?n div ?T"
    using sint64_quo_nonneg [of "100 * ?w" "mx - mn"] h d n0 T by simp
  then show ?thesis by simp
qed

text \<open>
  The round trip of alsa.go. The backend of the \<^verbatim>\<open>GetMasterVolume\<close> call reports the range
  of the \<^verbatim>\<open>SetMasterVolume\<close> call and, as the volume, the value that call set. For a
  percentage \<open>p\<close> from 0 to 100 the value \<open>g\<close> read back is at most \<open>p\<close>, misses it by less
  than one native step and one percent, and is \<open>p\<close> itself when \<open>p * (max - min)\<close> is a
  multiple of 100, as it is for 0 and for 100.
\<close>

lemma SetGet_round_trip:
  assumes ready: "mixer_ready be1" "mixer_ready be2"
    and range1: "snd_mixer_selem_get_playback_volume_range be1 = (r1, mn, mx)"
    and range2: "snd_mixer_selem_get_playback_volume_range be2 = (r2, mn, mx)"
    and stored:
      "Call_snd_mixer_selem_set_playback_volume_all v \<in> set (snd (SetMasterVolume be1 volume))"
      "snd_mixer_selem_get_playback_volume be2 = (r3, v)" "\<not> r3 <s 0"
    and p: "0 \<le> sint volume" "sint volume \<le> 100"
    and T: "sint mn < sint mx" "100 * (sint mx - sint mn) < 2 ^ 63"
  shows "\<exists>g. fst (GetMasterVolume be2) = Return (g, None)
           \<and> sint g \<le> sint volume
           \<and> (sint volume - sint g) * (sint mx - sint mn) < 100 + (sint mx - sint mn)
           \<and> (sint volume * (sint mx - sint mn) mod 100 = 0 \<longrightarrow> g = volume)"
proof -
  let ?T = "sint mx - sint mn"
  let ?p = "sint volume"
  have v: "v = quo (volume * (mx - mn)) 100 + mn"
    using stored(1) SetMasterVolume_calls [OF ready(1) range1, of volume] by auto
  have ne: "mx \<noteq> mn" using T by auto
  let ?g = "quo (100 * (v - mn)) (mx - mn)"
  have g: "fst (GetMasterVolume be2) = Return (?g, None)"
    using ready(2) range2 stored(2,3) ne by (rule GetMasterVolume_value)
  have s: "sint ?g = 100 * (?p * ?T div 100) div ?T"
    unfolding v using p T by (rule round_trip_sint)
  have T0: "0 < ?T" using T by simp
  have a: "sint ?g \<le> ?p" unfolding s using p(1) T0 by (rule round_trip_int(1))
  have b: "(?p - sint ?g) * ?T < 100 + ?T"
    unfolding s using p(1) T0 by (rule round_trip_int(2))
  have c: "?g = volume" if "?p * ?T mod 100 = 0"
  proof -
    have "100 * (?p * ?T div 100) = ?p * ?T"
      using that mult_div_mod_eq [of 100 "?p * ?T"] by simp
    then have "sint ?g = ?p" unfolding s using T0 by simp
    then show ?thesis by (rule signed_word_eqI)
  qed
  show ?thesis using g a b c by blast
qed

subsection \<open>What part_000 sets\<close>

text \<open>
  C1 says that \<^verbatim>\<open>SetMasterVolume\<close>, for a percentage \<open>p\<close> from 0 to 100 and a native range
  from \<open>min\<close> to \<open>max\<close>, sets all channels to \<open>min + p * (max - min) div 100\<close>. At the
  range 10 to 110 and 50 percent that value is \<open>10 + 50 * (110 - 10) div 100 = 60\<close>, and
  alsa.go sets 60. part_000 sets \<open>50 * 110 div 100 = 55\<close>: it reads the minimum and leaves
  it out.
\<close>

theorem SetMasterVolume_p0_drops_min:
  "SetMasterVolume_p0 ok_backend 50 =
     (None,
      [Call_snd_mixer_open, Call_snd_mixer_attach card, Call_snd_mixer_load,
       Call_snd_mixer_selem_id_malloc, Call_snd_mixer_selem_id_set_index,
       Call_snd_mixer_selem_id_set_name mixer_p0, Call_snd_mixer_find_selem,
       Call_snd_mixer_selem_get_playback_volume_range,
       Call_snd_mixer_selem_set_playback_volume_all 55,
       Call_snd_mixer_selem_id_free, Call_snd_mixer_close])
   \<and> SetMasterVolume ok_backend 50 =
     (None,
      [Call_snd_mixer_open, Call_snd_mixer_attach card, Call_snd_mixer_selem_register,
       Call_snd_mixer_load,
       Call_snd_mixer_selem_id_malloc, Call_snd_mixer_selem_id_set_index,
       Call_snd_mixer_selem_id_set_name mixer, Call_snd_mixer_find_selem,
       Call_snd_mixer_selem_get_playback_volume_range,
       Call_snd_mixer_selem_set_playback_volume_all 60,
       Call_snd_mixer_selem_id_free, Call_snd_mixer_close])"
  by (simp add: SetMasterVolume_p0_def SetMasterVolume_def ok_backend_def quo_def
      signed_divide_int_def)

text \<open>
  C7 says that \<^verbatim>\<open>SetMasterVolume(p)\<close> followed by \<^verbatim>\<open>GetMasterVolume()\<close> returns \<open>p\<close> up to
  integer rounding, for \<open>p\<close> among 0, 50 and 100, on a backend that stores the value set
  and returns it. In part_000, at the range 100 to 200 and 50 percent,
  \<^verbatim>\<open>SetMasterVolume(50)\<close> sets the native value \<open>50 * 200 div 100 = 100\<close>, the minimum of
  the range; with that value stored, \<^verbatim>\<open>GetMasterVolume\<close> returns
  \<open>100 * (100 - 100) div (200 - 100) = 0\<close>, not 50.
\<close>

theorem round_trip_p0_loses_half:
  "SetMasterVolume_p0 offset_backend 50 =
     (None,
      [Call_snd_mixer_open, Call_snd_mixer_attach card, Call_snd_mixer_load,
       Call_snd_mixer_selem_id_malloc, Call_snd_mixer_selem_id_set_index,
       Call_snd_mixer_selem_id_set_name mixer_p0, Call_snd_mixer_find_selem,
       Call_snd_mixer_selem_get_playback_volume_range,
       Call_snd_mixer_selem_set_playback_volume_all 100,
       Call_snd_mixer_selem_id_free, Call_snd_mixer_close])
   \<and> fst (GetMasterVolume_p0
          (offset_backend\<lparr>snd_mixer_selem_get_playback_volume := (0, 100)\<rparr>)) =
       Return (0, None)"
  by (simp add: SetMasterVolume_p0_def GetMasterVolume_p0_def offset_backend_def
      ok_backend_def quo_def signed_divide_int_def)

section \<open>Transfers\<close>

text \<open>
  C2. Whenever a \<^verbatim>\<open>Read\<close> or \<^verbatim>\<open>Write\<close> makes its transfer call and the backend answers
  \<open>-EPIPE\<close>, the call returns 0 samples with \<^verbatim>\<open>ErrOverrun\<close> (\<^verbatim>\<open>Read\<close>) or \<^verbatim>\<open>ErrUnderrun\<close>
  (\<^verbatim>\<open>Write\<close>), and the calls it made are the transfer followed by \<^verbatim>\<open>snd_pcm_prepare\<close> on
  the same handle. The generic error that \<^verbatim>\<open>createError\<close> builds is never one of the two.
  This holds in alsa.go and in part_000.
\<close>

theorem pipe_rearms_and_reports:
  "(Call_snd_pcm_readi hh fr \<in> set (snd (Read be c buffer))
      \<and> snd_pcm_readi be hh fr = - EPIPE \<longrightarrow>
      Read be c buffer =
        (Return (0, Some ErrOverrun), [Call_snd_pcm_readi hh fr, Call_snd_pcm_prepare hh]))
   \<and> (Call_snd_pcm_writei hh fr \<in> set (snd (Write be c buffer))
      \<and> snd_pcm_writei be hh fr = - EPIPE \<longrightarrow>
      Write be c buffer =
        (Return (0, Some ErrUnderrun), [Call_snd_pcm_writei hh fr, Call_snd_pcm_prepare hh]))
   \<and> (Call_snd_pcm_readi hh fr \<in> set (snd (Read_p0 be c0 b0))
      \<and> snd_pcm_readi be hh fr = - EPIPE \<longrightarrow>
      Read_p0 be c0 b0 =
        (Return (0, Some ErrOverrun), [Call_snd_pcm_readi hh fr, Call_snd_pcm_prepare hh]))
   \<and> (Call_snd_pcm_writei hh fr \<in> set (snd (Write_p0 be c0 b0))
      \<and> snd_pcm_writei be hh fr = - EPIPE \<longrightarrow>
      Write_p0 be c0 b0 =
        (Return (0, Some ErrUnderrun), [Call_snd_pcm_writei hh fr, Call_snd_pcm_prepare hh]))
   \<and> createError be msg code \<noteq> ErrOverrun \<and> createError be msg code \<noteq> ErrUnderrun"
  by (auto simp add: Read_def Write_def Read_p0_def Write_p0_def Let_def createError_def
       split: option.splits if_splits iface.splits outcome.splits)

theorem pipe_rearms_and_reports_witness:
  "Call_snd_pcm_readi (Some 1) 2 \<in> set (snd (Read pipe_backend open_dev [0, 0, 0, 0]))
   \<and> snd_pcm_readi pipe_backend (Some 1) 2 = - EPIPE
   \<and> Read pipe_backend open_dev [0, 0, 0, 0] =
       (Return (0, Some ErrOverrun),
        [Call_snd_pcm_readi (Some 1) 2, Call_snd_pcm_prepare (Some 1)])
   \<and> Call_snd_pcm_writei (Some 1) 2 \<in> set (snd (Write pipe_backend open_dev [0, 0, 0, 0]))
   \<and> snd_pcm_writei pipe_backend (Some 1) 2 = - EPIPE
   \<and> Write pipe_backend open_dev [0, 0, 0, 0] =
       (Return (0, Some ErrUnderrun),
        [Call_snd_pcm_writei (Some 1) 2, Call_snd_pcm_prepare (Some 1)])
   \<and> Call_snd_pcm_readi (Some 1) 2
        \<in> set (snd (Read_p0 pipe_backend open_dev_p0 (Value reflect_Slice reflect_Int8 4)))
   \<and> Read_p0 pipe_backend open_dev_p0 (Value reflect_Slice reflect_Int8 4) =
       (Return (0, Some ErrOverrun),
        [Call_snd_pcm_readi (Some 1) 2, Call_snd_pcm_prepare (Some 1)])
   \<and> Call_snd_pcm_writei (Some 1) 2
        \<in> set (snd (Write_p0 pipe_backend open_dev_p0 (Value reflect_Slice reflect_Int8 4)))
   \<and> Write_p0 pipe_backend open_dev_p0 (Value reflect_Slice reflect_Int8 4) =
       (Return (0, Some ErrUnderrun),
        [Call_snd_pcm_writei (Some 1) 2, Call_snd_pcm_prepare (Some 1)])"
proof -
  have q: "quo (4 :: 64 word) 2 = 2"
    by (simp add: quo_def signed_divide_int_def)
  have r: "Call_snd_pcm_readi (Some 1) 2 \<in> set (snd (Read pipe_backend open_dev [0, 0, 0, 0]))"
    by (simp add: Read_def pipe_backend_def ok_backend_def open_dev_def cd_audio_def q EPIPE_def)
  have w: "Call_snd_pcm_writei (Some 1) 2 \<in> set (snd (Write pipe_backend open_dev [0, 0, 0, 0]))"
    by (simp add: Write_def pipe_backend_def ok_backend_def open_dev_def cd_audio_def q EPIPE_def)
  have r0: "Call_snd_pcm_readi (Some 1) 2
      \<in> set (snd (Read_p0 pipe_backend open_dev_p0 (Value reflect_Slice reflect_Int8 4)))"
    by (simp add: Read_p0_def elemSwitch_p0_def sizeCase_p0_def formatSampleSize_p0_def
        pipe_backend_def ok_backend_def open_dev_p0_def q EPIPE_def)
  have w0: "Call_snd_pcm_writei (Some 1) 2
      \<in> set (snd (Write_p0 pipe_backend open_dev_p0 (Value reflect_Slice reflect_Int8 4)))"
    by (simp add: Write_p0_def elemSwitch_p0_def sizeCase_p0_def formatSampleSize_p0_def
        pipe_backend_def ok_backend_def open_dev_p0_def q EPIPE_def)
  have e: "snd_pcm_readi pipe_backend (Some 1) 2 = - EPIPE"
    "snd_pcm_writei pipe_backend (Some 1) 2 = - EPIPE"
    by (simp_all add: pipe_backend_def ok_backend_def EPIPE_def)
  show ?thesis
    using r w r0 w0 e
      pipe_rearms_and_reports [where be = pipe_backend and hh = "Some 1" and fr = 2
        and c = open_dev and buffer = "[0, 0, 0, 0]" and ?c0.0 = open_dev_p0
        and ?b0.0 = "Value reflect_Slice reflect_Int8 4"]
    by simp
qed

subsection \<open>The element switch of part_000\<close>

lemma elemSwitch_p0_match:
  assumes "ek \<in> {reflect_Int8, reflect_Int16, reflect_Int32, reflect_Float32, reflect_Float64}"
    and "sampleSizeOf (Format_p0 c) = Return s"
    and "kindWidth ek = Some s"
  shows "elemSwitch_p0 c msg ek = Return None"
  using assms
  by (auto simp add: elemSwitch_p0_def sizeCase_p0_def formatSampleSize_p0_def kindWidth_def)

lemma elemSwitch_p0_mismatch:
  assumes "ek \<in> {reflect_Int8, reflect_Int16, reflect_Int32, reflect_Float32, reflect_Float64}"
    and "sampleSizeOf (Format_p0 c) = Return s"
    and "kindWidth ek \<noteq> Some s"
  shows "elemSwitch_p0 c msg ek = Return (Some ErrSize)"
  using assms
  by (auto simp add: elemSwitch_p0_def sizeCase_p0_def formatSampleSize_p0_def kindWidth_def)

text \<open>
  C6, as stated, fails in each file. In part_000 a slice of \<^verbatim>\<open>uint16\<close> (two bytes an
  element) written to a device whose format has one byte a sample returns the error
  "Write does not support this format", not \<^verbatim>\<open>ErrSize\<close>. In alsa.go the buffer is a byte
  slice (one byte an element) and nothing is checked: on a device with a two-byte format
  the transfer call is made and four samples are reported written.
\<close>

theorem size_mismatch_counterexample:
  "kindWidth reflect_Uint16 = Some 2
   \<and> formatSampleSize_p0 open_dev_p0 = Return 1
   \<and> Write_p0 ok_backend open_dev_p0 (Value reflect_Slice reflect_Uint16 4) =
       (Return (0, Some (ErrorsNew ''Write does not support this format'')), [])
   \<and> kindWidth reflect_Uint8 = Some 1
   \<and> formatSampleSize open_dev = Return 2
   \<and> Write ok_backend open_dev [0, 0, 0, 0] =
       (Return (4, None), [Call_snd_pcm_writei (Some 1) 2])"
  by (simp add: Write_p0_def Write_def elemSwitch_p0_def formatSampleSize_p0_def
      formatSampleSize_def kindWidth_def ok_backend_def open_dev_p0_def open_dev_def
      cd_audio_def quo_def signed_divide_int_def EPIPE_def word_sless_alt)

text \<open>
  C6, amended. In part_000, for every \<^verbatim>\<open>Read\<close> or \<^verbatim>\<open>Write\<close> call whose buffer is an array
  or slice with elements of kind int8, int16, int32, float32 or float64, on a device
  whose format is one of the eighteen of the catalog: if the element's byte width is not
  the format's sample size, the call returns 0 samples and \<^verbatim>\<open>ErrSize\<close> and makes no
  backend call.
\<close>

theorem size_mismatch_amended:
  assumes "k = reflect_Array \<or> k = reflect_Slice"
    and "ek \<in> {reflect_Int8, reflect_Int16, reflect_Int32, reflect_Float32, reflect_Float64}"
    and "sampleSizeOf (Format_p0 d) = Return s"
    and "kindWidth ek \<noteq> Some s"
  shows "Read_p0 be d (Value k ek n) = (Return (0, Some ErrSize), [])
       \<and> Write_p0 be d (Value k ek n) = (Return (0, Some ErrSize), [])"
proof -
  have "elemSwitch_p0 d msg ek = Return (Some ErrSize)" for msg
    using assms(2-4) by (rule elemSwitch_p0_mismatch)
  then show ?thesis
    using assms(1) by (auto simp add: Read_p0_def Write_p0_def)
qed

theorem size_mismatch_amended_witness:
  "sampleSizeOf (Format_p0 open_dev_p0) = Return 1
   \<and> kindWidth reflect_Int16 \<noteq> Some 1
   \<and> Read_p0 ok_backend open_dev_p0 (Value reflect_Slice reflect_Int16 4) =
       (Return (0, Some ErrSize), [])
   \<and> Write_p0 ok_backend open_dev_p0 (Value reflect_Slice reflect_Int16 4) =
       (Return (0, Some ErrSize), [])"
proof -
  have a: "sampleSizeOf (Format_p0 open_dev_p0) = Return 1"
    by (simp add: open_dev_p0_def)
  have b: "kindWidth reflect_Int16 \<noteq> Some 1"
    by (simp add: kindWidth_def)
  show ?thesis
    using a b
      size_mismatch_amended [where k = reflect_Slice and ek = reflect_Int16
        and d = open_dev_p0 and s = 1 and be = ok_backend and n = 4]
    by simp
qed

text \<open>
  C10, as stated, fails in part_000: a zero-length slice of \<^verbatim>\<open>int16\<close> read into from a
  device with a one-byte format returns \<^verbatim>\<open>ErrSize\<close>; nothing panics.
\<close>

theorem empty_buffer_counterexample:
  "Read_p0 ok_backend open_dev_p0 (Value reflect_Slice reflect_Int16 0) =
     (Return (0, Some ErrSize), [])"
  by (simp add: Read_p0_def elemSwitch_p0_def sizeCase_p0_def formatSampleSize_p0_def
      open_dev_p0_def)

text \<open>
  C10, amended. In alsa.go every \<^verbatim>\<open>Read\<close> or \<^verbatim>\<open>Write\<close> with a zero-length buffer panics
  before any backend call, with an index out of range when the device has its
  parameters and a channel count that is not zero. In part_000 a zero-length array or
  slice panics before any backend call whenever it passes the element switch, that is,
  when its elements are of kind int8, int16, int32, float32 or float64 and as wide as
  the samples of the device's format; a slice then panics with an index out of range
  when the channel count is not zero.
\<close>

theorem empty_buffer_amended:
  "(\<exists>p. Read be c [] = (Panic p, [])) \<and> (\<exists>p. Write be c [] = (Panic p, []))
   \<and> (Audio c = Some a \<and> Channels a \<noteq> 0 \<longrightarrow>
        Read be c [] = (Panic IndexOutOfRange, [])
        \<and> Write be c [] = (Panic IndexOutOfRange, []))
   \<and> ((k = reflect_Array \<or> k = reflect_Slice)
        \<and> ek \<in> {reflect_Int8, reflect_Int16, reflect_Int32, reflect_Float32, reflect_Float64}
        \<and> sampleSizeOf (Format_p0 c0) = Return s \<and> kindWidth ek = Some s \<longrightarrow>
        (\<exists>p. Read_p0 be c0 (Value k ek 0) = (Panic p, []))
        \<and> (\<exists>p. Write_p0 be c0 (Value k ek 0) = (Panic p, []))
        \<and> (k = reflect_Slice \<and> Channels_p0 c0 \<noteq> 0 \<longrightarrow>
             Read_p0 be c0 (Value k ek 0) = (Panic IndexOutOfRange, [])
             \<and> Write_p0 be c0 (Value k ek 0) = (Panic IndexOutOfRange, [])))"
proof -
  have a: "\<exists>p. Read be c [] = (Panic p, [])" "\<exists>p. Write be c [] = (Panic p, [])"
    by (auto simp add: Read_def Write_def split: option.splits)
  have b: "Read be c [] = (Panic IndexOutOfRange, [])
      \<and> Write be c [] = (Panic IndexOutOfRange, [])"
    if "Audio c = Some a \<and> Channels a \<noteq> 0"
    using that by (simp add: Read_def Write_def)
  have c: "(\<exists>p. Read_p0 be c0 (Value k ek 0) = (Panic p, []))
        \<and> (\<exists>p. Write_p0 be c0 (Value k ek 0) = (Panic p, []))
        \<and> (k = reflect_Slice \<and> Channels_p0 c0 \<noteq> 0 \<longrightarrow>
             Read_p0 be c0 (Value k ek 0) = (Panic IndexOutOfRange, [])
             \<and> Write_p0 be c0 (Value k ek 0) = (Panic IndexOutOfRange, []))"
    if h: "(k = reflect_Array \<or> k = reflect_Slice)
        \<and> ek \<in> {reflect_Int8, reflect_Int16, reflect_Int32, reflect_Float32, reflect_Float64}
        \<and> sampleSizeOf (Format_p0 c0) = Return s \<and> kindWidth ek = Some s"
  proof -
    have e: "elemSwitch_p0 c0 msg ek = Return None" for msg
      using h by (intro elemSwitch_p0_match [where s = s]) simp_all
    show ?thesis using h by (auto simp add: Read_p0_def Write_p0_def e)
  qed
  show ?thesis using a b c by blast
qed

theorem empty_buffer_amended_witness:
  "Audio open_dev = Some cd_audio \<and> Channels cd_audio \<noteq> 0
   \<and> Read ok_backend open_dev [] = (Panic IndexOutOfRange, [])
   \<and> Write ok_backend open_dev [] = (Panic IndexOutOfRange, [])
   \<and> sampleSizeOf (Format_p0 open_dev_p0) = Return 1
   \<and> kindWidth reflect_Int8 = Some 1
   \<and> Channels_p0 open_dev_p0 \<noteq> 0
   \<and> Read_p0 ok_backend open_dev_p0 (Value reflect_Slice reflect_Int8 0) =
       (Panic IndexOutOfRange, [])
   \<and> Write_p0 ok_backend open_dev_p0 (Value reflect_Slice reflect_Int8 0) =
       (Panic IndexOutOfRange, [])"
proof -
  have a: "Audio open_dev = Some cd_audio \<and> Channels cd_audio \<noteq> 0"
    by (simp add: open_dev_def cd_audio_def)
  have b: "sampleSizeOf (Format_p0 open_dev_p0) = Return 1 \<and> kindWidth reflect_Int8 = Some 1
      \<and> Channels_p0 open_dev_p0 \<noteq> 0"
    by (simp add: open_dev_p0_def kindWidth_def)
  show ?thesis
    using a b
      empty_buffer_amended [where be = ok_backend and c = open_dev and a = cd_audio
        and k = reflect_Slice and ek = reflect_Int8 and ?c0.0 = open_dev_p0 and s = 1]
    by simp
qed

section \<open>Negotiation\<close>

text \<open>The period length the code asks for is the one the specification describes.\<close>

lemma requested_period_spec:
  "(if 0 <s PeriodFrames bp then PeriodFrames bp
    else if 0 <s Periods bp then quo resolved (Periods bp)
    else quo rate 8) = word_of_int (spec_period_length bp rate resolved)"
  by (simp add: spec_period_length_def quo_def word_sless_alt)

text \<open>
  With a sample rate that is not negative and a resolved buffer length below \<open>2 ^ 63\<close>
  frames the divisions of the rule are the mathematical ones, on the buffer length as an
  unsigned number.
\<close>

lemma spec_period_length_nonneg:
  assumes "0 \<le> sint rate" and "0 \<le> sint resolved"
  shows "spec_period_length hint rate resolved =
    (if 0 < sint (PeriodFrames hint) then sint (PeriodFrames hint)
     else if 0 < sint (Periods hint) then uint resolved div sint (Periods hint)
     else sint rate div 8)"
proof -
  have "sint resolved < 2 ^ 63" using sint_lt [of resolved] by simp
  then have "sint resolved < 2 ^ 64" by simp
  then have "take_bit 64 (sint resolved) = sint resolved"
    using assms(2) by (simp add: take_bit_int_eq_self)
  then have "sint resolved = uint resolved"
    using uint_sint [of resolved] by simp
  then show ?thesis
    using assms by (simp add: spec_period_length_def sdiv_nonneg)
qed

lemma negotiateFrom_period_call:
  assumes "Call_snd_pcm_hw_params_set_period_size_near v \<in> set (snd (negotiateFrom be rate bp bs))"
  shows "v = word_of_int (spec_period_length bp rate (snd (snd_pcm_hw_params_set_buffer_size_near be bs)))"
  using assms unfolding requested_period_spec [symmetric]
  by (auto simp add: negotiateFrom_def Let_def split: prod.splits if_splits)

lemma negotiateBuffers_period_call:
  assumes "negotiateBuffers be rate bp = (r, t)"
    and "Call_snd_pcm_hw_params_set_period_size_near v \<in> set t"
  shows "v = word_of_int (spec_period_length bp rate (resolved_buffer_length be bp))"
  using assms negotiateFrom_period_call [of v be rate bp]
  by (auto simp add: negotiateBuffers_def resolved_buffer_length_def split: prod.splits if_splits)

lemma negotiateFrom_success:
  assumes "negotiateFrom be rate bp bs = (Inr (b, p, n), t)"
  shows "b = snd (snd_pcm_hw_params_set_buffer_size_near be bs)
    \<and> p = snd (snd_pcm_hw_params_set_period_size_near be
               (word_of_int (spec_period_length bp rate (snd (snd_pcm_hw_params_set_buffer_size_near be bs)))))
    \<and> n = snd (snd_pcm_hw_params_get_periods be)
    \<and> t = [Call_snd_pcm_hw_params_set_buffer_size_near bs,
           Call_snd_pcm_hw_params_set_period_size_near
             (word_of_int (spec_period_length bp rate (snd (snd_pcm_hw_params_set_buffer_size_near be bs)))),
           Call_snd_pcm_hw_params_get_periods, Call_snd_pcm_hw_params]"
  using assms unfolding requested_period_spec [symmetric]
  by (auto simp add: negotiateFrom_def Let_def split: prod.splits if_splits)

lemma negotiateBuffers_success:
  assumes "negotiateBuffers be rate bp = (Inr (b, p, n), t)"
  shows "b = resolved_buffer_length be bp
    \<and> p = snd (snd_pcm_hw_params_set_period_size_near be
               (word_of_int (spec_period_length bp rate (resolved_buffer_length be bp))))
    \<and> n = snd (snd_pcm_hw_params_get_periods be)
    \<and> Call_snd_pcm_hw_params_set_period_size_near
             (word_of_int (spec_period_length bp rate (resolved_buffer_length be bp))) \<in> set t
    \<and> Call_snd_pcm_hw_params_get_periods \<in> set t"
proof (cases "BufferFrames bp = 0")
  case True
  then obtain t' where "negotiateFrom be rate bp (snd (snd_pcm_hw_params_get_buffer_size_max be)) = (Inr (b, p, n), t')"
    and "t = Call_snd_pcm_hw_params_get_buffer_size_max # t'"
    using assms by (auto simp add: negotiateBuffers_def split: prod.splits if_splits)
  then show ?thesis
    using True negotiateFrom_success [of be rate bp "snd (snd_pcm_hw_params_get_buffer_size_max be)" b p n t']
    by (simp add: resolved_buffer_length_def)
next
  case False
  then have "negotiateFrom be rate bp (BufferFrames bp) = (Inr (b, p, n), t)"
    using assms by (simp add: negotiateBuffers_def)
  then show ?thesis
    using False negotiateFrom_success [of be rate bp "BufferFrames bp" b p n t]
    by (simp add: resolved_buffer_length_def)
qed

lemma initDevice_period_call:
  assumes "Call_snd_pcm_hw_params_set_period_size_near v \<in> set (snd (snd (initDevice be d name audio pb bp)))"
  shows "\<exists>a. audio = Some a \<and> v = word_of_int (spec_period_length bp (SamplingRate a) (resolved_buffer_length be bp))"
  using assms
  by (auto simp add: initDevice_def split: prod.splits if_splits option.splits sum.splits
      dest: negotiateBuffers_period_call)

lemma createDevice_p0_period_call:
  assumes "Call_snd_pcm_hw_params_set_period_size_near v \<in> set (snd (snd (createDevice_p0 be d name ch fmt rate pb bp)))"
  shows "v = word_of_int (spec_period_length bp rate (resolved_buffer_length be bp))"
  using assms
  by (auto simp add: createDevice_p0_def split: prod.splits if_splits option.splits sum.splits
      dest: negotiateBuffers_period_call)

lemma initDevice_success:
  assumes "fst (initDevice be d name audio pb bp) = Return None"
  shows "\<exists>a b p n t. audio = Some a \<and> negotiateBuffers be (SamplingRate a) bp = (Inr (b, p, n), t)
     \<and> fst (snd (initDevice be d name audio pb bp)) =
         d\<lparr>h := snd (snd_pcm_open be name pb), finalizer := True, frames := p, Audio := audio,
                     BufferParams := \<lparr>BufferFrames = b, PeriodFrames = p, Periods = ucast n\<rparr>\<rparr>
     \<and> set t \<subseteq> set (snd (snd (initDevice be d name audio pb bp)))"
  using assms
  by (auto simp add: initDevice_def split: prod.splits if_splits option.splits sum.splits)

lemma createDevice_p0_success:
  assumes "fst (createDevice_p0 be d name ch fmt rate pb bp) = None"
  shows "\<exists>b p n t. negotiateBuffers be rate bp = (Inr (b, p, n), t)
     \<and> fst (snd (createDevice_p0 be d name ch fmt rate pb bp)) =
         d\<lparr>h_p0 := snd (snd_pcm_open be name pb), finalizer_p0 := True, frames_p0 := p,
            Channels_p0 := ch, Format_p0 := fmt, Rate_p0 := rate,
            BufferParams_p0 := \<lparr>BufferFrames = b, PeriodFrames = p, Periods = ucast n\<rparr>\<rparr>
     \<and> set t \<subseteq> set (snd (snd (createDevice_p0 be d name ch fmt rate pb bp)))"
  using assms
  by (auto simp add: createDevice_p0_def split: prod.splits if_splits option.splits sum.splits)

text \<open>
  C4. In \<^verbatim>\<open>initDevice\<close> (alsa.go) and \<^verbatim>\<open>createDevice\<close> (part_000), every period length
  handed to \<^verbatim>\<open>snd_pcm_hw_params_set_period_size_near\<close> is the one the rule gives: the
  hint's period-frame count if positive; else, if the hint's period count is positive,
  the resolved buffer length divided by it; else the sample rate divided by 8. A
  negotiation that succeeds has made that request.
\<close>

theorem period_length_rule:
  "(Call_snd_pcm_hw_params_set_period_size_near v
       \<in> set (snd (snd (initDevice be d name audio pb bp))) \<longrightarrow>
     (\<exists>a. audio = Some a
        \<and> v = word_of_int (spec_period_length bp (SamplingRate a) (resolved_buffer_length be bp))))
   \<and> (fst (initDevice be d name audio pb bp) = Return None \<longrightarrow>
     (\<exists>v. Call_snd_pcm_hw_params_set_period_size_near v
        \<in> set (snd (snd (initDevice be d name audio pb bp)))))
   \<and> (Call_snd_pcm_hw_params_set_period_size_near v0
       \<in> set (snd (snd (createDevice_p0 be d0 name ch fmt rate pb bp))) \<longrightarrow>
     v0 = word_of_int (spec_period_length bp rate (resolved_buffer_length be bp)))
   \<and> (fst (createDevice_p0 be d0 name ch fmt rate pb bp) = None \<longrightarrow>
     (\<exists>v. Call_snd_pcm_hw_params_set_period_size_near v
        \<in> set (snd (snd (createDevice_p0 be d0 name ch fmt rate pb bp)))))"
proof -
  have a: "\<exists>v. Call_snd_pcm_hw_params_set_period_size_near v
        \<in> set (snd (snd (initDevice be d name audio pb bp)))"
    if "fst (initDevice be d name audio pb bp) = Return None"
    using initDevice_success [OF that] negotiateBuffers_success by blast
  have b: "\<exists>v. Call_snd_pcm_hw_params_set_period_size_near v
        \<in> set (snd (snd (createDevice_p0 be d0 name ch fmt rate pb bp)))"
    if "fst (createDevice_p0 be d0 name ch fmt rate pb bp) = None"
    using createDevice_p0_success [OF that] negotiateBuffers_success by blast
  show ?thesis
    using a b initDevice_period_call [of v be d name audio pb bp]
      createDevice_p0_period_call [of v0 be d0 name ch fmt rate pb bp]
    by blast
qed

theorem period_length_rule_witness:
  "Call_snd_pcm_hw_params_set_period_size_near 6000
     \<in> set (snd (snd (initDevice ok_backend new_dev ''default'' (Some cd_audio) True no_hint)))
   \<and> fst (initDevice ok_backend new_dev ''default'' (Some cd_audio) True no_hint) = Return None
   \<and> (6000 :: snd_pcm_uframes_t) =
       word_of_int (spec_period_length no_hint (SamplingRate cd_audio)
                      (resolved_buffer_length ok_backend no_hint))
   \<and> Call_snd_pcm_hw_params_set_period_size_near 6000
     \<in> set (snd (snd (createDevice_p0 ok_backend new_dev_p0 ''default'' 2 SampleFormatS16LE
                         48000 True no_hint)))
   \<and> fst (createDevice_p0 ok_backend new_dev_p0 ''default'' 2 SampleFormatS16LE
             48000 True no_hint) = None
   \<and> (6000 :: snd_pcm_uframes_t) =
       word_of_int (spec_period_length no_hint 48000 (resolved_buffer_length ok_backend no_hint))"
proof -
  have a: "Call_snd_pcm_hw_params_set_period_size_near 6000
     \<in> set (snd (snd (initDevice ok_backend new_dev ''default'' (Some cd_audio) True no_hint)))
   \<and> fst (initDevice ok_backend new_dev ''default'' (Some cd_audio) True no_hint) = Return None"
    by (simp add: initDevice_def negotiateBuffers_def negotiateFrom_def ok_backend_def
        new_dev_def cd_audio_def no_hint_def quo_def signed_divide_int_def word_sless_alt)
  have b: "Call_snd_pcm_hw_params_set_period_size_near 6000
     \<in> set (snd (snd (createDevice_p0 ok_backend new_dev_p0 ''default'' 2 SampleFormatS16LE
                         48000 True no_hint)))
   \<and> fst (createDevice_p0 ok_backend new_dev_p0 ''default'' 2 SampleFormatS16LE
             48000 True no_hint) = None"
    by (simp add: createDevice_p0_def negotiateBuffers_def negotiateFrom_def ok_backend_def
        new_dev_p0_def no_hint_def quo_def signed_divide_int_def word_sless_alt)
  show ?thesis
    using a b
      period_length_rule [where v = 6000 and be = ok_backend and d = new_dev
        and name = "''default''" and audio = "Some cd_audio" and pb = True and bp = no_hint
        and ?v0.0 = 6000 and ?d0.0 = new_dev_p0 and ch = 2 and fmt = SampleFormatS16LE
        and rate = 48000]
    by (simp add: cd_audio_def)
qed

text \<open>
  The three cases of the rule on the backend that accepts what it is asked: a hint with
  period length 1024 and period count 4 asks for 1024, the hint with the count alone for
  \<open>8192 div 4 = 2048\<close>, and no hint for \<open>48000 div 8 = 6000\<close>.
\<close>

lemma period_length_examples:
  "Call_snd_pcm_hw_params_set_period_size_near 1024
     \<in> set (snd (snd (initDevice ok_backend new_dev ''default'' (Some cd_audio) True both_hint)))"
  "Call_snd_pcm_hw_params_set_period_size_near 2048
     \<in> set (snd (snd (initDevice ok_backend new_dev ''default'' (Some cd_audio) True count_hint)))"
  "Call_snd_pcm_hw_params_set_period_size_near 6000
     \<in> set (snd (snd (initDevice ok_backend new_dev ''default'' (Some cd_audio) True no_hint)))"
  by (simp_all add: initDevice_def negotiateBuffers_def negotiateFrom_def ok_backend_def
      new_dev_def cd_audio_def no_hint_def both_hint_def count_hint_def quo_def
      signed_divide_int_def word_sless_alt)

text \<open>
  On a backend that keeps the contract the accepted period length is at most the
  accepted buffer length, also when both are read as Go's \<^verbatim>\<open>int\<close>.
\<close>

lemma layout_contract_le:
  assumes "backend_layout_contract be hint rate"
  shows "sint (accepted_period_length be hint rate) \<le> sint (resolved_buffer_length be hint)"
proof -
  let ?b = "resolved_buffer_length be hint"
  let ?p = "accepted_period_length be hint rate"
  have pos: "0 < unat ?b" and dv: "unat ?p dvd unat ?b" and bd: "unat ?b < 2 ^ 63"
    using assms by (simp_all add: backend_layout_contract_def)
  have le: "unat ?p \<le> unat ?b" using dv pos by (rule dvd_imp_le)
  then have "unat ?p < 2 ^ 63" using bd by simp
  then have sp: "sint ?p = int (unat ?p)" by (rule sint64_unat)
  have sb: "sint ?b = int (unat ?b)" using bd by (rule sint64_unat)
  have "int (unat ?p) \<le> int (unat ?b)" using le by (simp only: of_nat_le_iff)
  then show ?thesis by (simp only: sp sb)
qed

text \<open>
  C5. For every successful negotiation, in alsa.go and in part_000: the period-count
  query was made and the \<^verbatim>\<open>Periods\<close> field is the value it returned (the 32-bit count
  widened), not a count computed from the two lengths; the buffer length is the value the
  backend returned from \<^verbatim>\<open>snd_pcm_hw_params_set_buffer_size_near\<close> and the period length
  the value it returned from \<^verbatim>\<open>snd_pcm_hw_params_set_period_size_near\<close>; and, on a backend
  that keeps the contract of the specification, the negotiated buffer length is at
  least the negotiated period length.
\<close>

theorem negotiated_layout:
  "(fst (initDevice be d name (Some a) pb bp) = Return None \<longrightarrow>
      BufferParams (fst (snd (initDevice be d name (Some a) pb bp))) =
        \<lparr>BufferFrames = resolved_buffer_length be bp,
         PeriodFrames = accepted_period_length be bp (SamplingRate a),
         Periods = ucast (snd (snd_pcm_hw_params_get_periods be))\<rparr>
      \<and> Call_snd_pcm_hw_params_get_periods
           \<in> set (snd (snd (initDevice be d name (Some a) pb bp)))
      \<and> (backend_layout_contract be bp (SamplingRate a) \<longrightarrow>
           sint (PeriodFrames (BufferParams (fst (snd (initDevice be d name (Some a) pb bp)))))
           \<le> sint (BufferFrames (BufferParams (fst (snd (initDevice be d name (Some a) pb bp)))))))
   \<and> (fst (createDevice_p0 be d0 name ch fmt rate pb bp) = None \<longrightarrow>
      BufferParams_p0 (fst (snd (createDevice_p0 be d0 name ch fmt rate pb bp))) =
        \<lparr>BufferFrames = resolved_buffer_length be bp,
         PeriodFrames = accepted_period_length be bp rate,
         Periods = ucast (snd (snd_pcm_hw_params_get_periods be))\<rparr>
      \<and> Call_snd_pcm_hw_params_get_periods
           \<in> set (snd (snd (createDevice_p0 be d0 name ch fmt rate pb bp)))
      \<and> (backend_layout_contract be bp rate \<longrightarrow>
           sint (PeriodFrames (BufferParams_p0
                  (fst (snd (createDevice_p0 be d0 name ch fmt rate pb bp)))))
           \<le> sint (BufferFrames (BufferParams_p0
                  (fst (snd (createDevice_p0 be d0 name ch fmt rate pb bp)))))))"
proof -
  have a: "BufferParams (fst (snd (initDevice be d name (Some a) pb bp))) =
        \<lparr>BufferFrames = resolved_buffer_length be bp,
         PeriodFrames = accepted_period_length be bp (SamplingRate a),
         Periods = ucast (snd (snd_pcm_hw_params_get_periods be))\<rparr>
      \<and> Call_snd_pcm_hw_params_get_periods
           \<in> set (snd (snd (initDevice be d name (Some a) pb bp)))"
    if s: "fst (initDevice be d name (Some a) pb bp) = Return None"
  proof -
    obtain b p n t where n: "negotiateBuffers be (SamplingRate a) bp = (Inr (b, p, n), t)"
      and d: "fst (snd (initDevice be d name (Some a) pb bp)) =
         d\<lparr>h := snd (snd_pcm_open be name pb), finalizer := True, frames := p, Audio := Some a,
                     BufferParams := \<lparr>BufferFrames = b, PeriodFrames = p, Periods = ucast n\<rparr>\<rparr>"
      and t: "set t \<subseteq> set (snd (snd (initDevice be d name (Some a) pb bp)))"
      using initDevice_success [OF s] by auto
    show ?thesis
      using negotiateBuffers_success [OF n] t
      by (auto simp add: d accepted_period_length_def)
  qed
  have b: "BufferParams_p0 (fst (snd (createDevice_p0 be d0 name ch fmt rate pb bp))) =
        \<lparr>BufferFrames = resolved_buffer_length be bp,
         PeriodFrames = accepted_period_length be bp rate,
         Periods = ucast (snd (snd_pcm_hw_params_get_periods be))\<rparr>
      \<and> Call_snd_pcm_hw_params_get_periods
           \<in> set (snd (snd (createDevice_p0 be d0 name ch fmt rate pb bp)))"
    if s: "fst (createDevice_p0 be d0 name ch fmt rate pb bp) = None"
  proof -
    obtain b p n t where n: "negotiateBuffers be rate bp = (Inr (b, p, n), t)"
      and d: "fst (snd (createDevice_p0 be d0 name ch fmt rate pb bp)) =
         d0\<lparr>h_p0 := snd (snd_pcm_open be name pb), finalizer_p0 := True, frames_p0 := p,
            Channels_p0 := ch, Format_p0 := fmt, Rate_p0 := rate,
            BufferParams_p0 := \<lparr>BufferFrames = b, PeriodFrames = p, Periods = ucast n\<rparr>\<rparr>"
      and t: "set t \<subseteq> set (snd (snd (createDevice_p0 be d0 name ch fmt rate pb bp)))"
      using createDevice_p0_success [OF s] by auto
    show ?thesis
      using negotiateBuffers_success [OF n] t
      by (auto simp add: d accepted_period_length_def)
  qed
  show ?thesis
    using a b layout_contract_le [of be bp "SamplingRate a"] layout_contract_le [of be bp rate]
    by simp
qed

theorem negotiated_layout_witness:
  "fst (initDevice ok_backend new_dev ''default'' (Some cd_audio) True count_hint) = Return None
   \<and> backend_layout_contract ok_backend count_hint (SamplingRate cd_audio)
   \<and> BufferParams (fst (snd (initDevice ok_backend new_dev ''default'' (Some cd_audio)
                               True count_hint))) =
       \<lparr>BufferFrames = 8192, PeriodFrames = 2048, Periods = 4\<rparr>
   \<and> sint (2048 :: go_int) \<le> sint (8192 :: go_int)
   \<and> fst (createDevice_p0 ok_backend new_dev_p0 ''default'' 2 SampleFormatS16LE
             48000 True count_hint) = None
   \<and> backend_layout_contract ok_backend count_hint 48000
   \<and> BufferParams_p0 (fst (snd (createDevice_p0 ok_backend new_dev_p0 ''default'' 2
                                  SampleFormatS16LE 48000 True count_hint))) =
       \<lparr>BufferFrames = 8192, PeriodFrames = 2048, Periods = 4\<rparr>"
proof -
  have a: "fst (initDevice ok_backend new_dev ''default'' (Some cd_audio) True count_hint)
      = Return None"
    by (simp add: initDevice_def negotiateBuffers_def negotiateFrom_def ok_backend_def
        new_dev_def cd_audio_def count_hint_def quo_def signed_divide_int_def word_sless_alt)
  have b: "fst (createDevice_p0 ok_backend new_dev_p0 ''default'' 2 SampleFormatS16LE
             48000 True count_hint) = None"
    by (simp add: createDevice_p0_def negotiateBuffers_def negotiateFrom_def ok_backend_def
        new_dev_p0_def count_hint_def quo_def signed_divide_int_def word_sless_alt)
  have c: "resolved_buffer_length ok_backend count_hint = 8192"
    by (simp add: resolved_buffer_length_def ok_backend_def count_hint_def)
  have r: "spec_period_length count_hint 48000 8192 = 2048"
    by (simp add: spec_period_length_def count_hint_def signed_divide_int_def)
  have e: "accepted_period_length ok_backend count_hint 48000 = 2048"
    unfolding accepted_period_length_def c r by (simp add: ok_backend_def)
  have f: "backend_layout_contract ok_backend count_hint 48000"
    by (simp add: backend_layout_contract_def c e)
  have g: "snd_pcm_hw_params_get_periods ok_backend = (0, 4)"
    by (simp add: ok_backend_def)
  show ?thesis
    using a b f
      negotiated_layout [where be = ok_backend and d = new_dev
        and name = "''default''" and a = cd_audio and pb = True and bp = count_hint
        and ?d0.0 = new_dev_p0 and ch = 2 and fmt = SampleFormatS16LE and rate = 48000]
    by (simp add: c e g cd_audio_def)
qed

end
